theory Spec2Isabelle
  imports Complex_Main "HOL-Library.Sublist" "HOL-Library.Multiset" "HOL-Library.Code_Target_Numeral"
begin

section \<open>Strings and errors of the JavaScript sources\<close>

text \<open>
  A JavaScript string is a sequence of UTF-16 code units; \<open>length\<close>, \<open>indexOf\<close>,
  \<open>substring\<close>, \<open>trim\<close> and the regular expressions of the sources all count and
  compare code units. A string is therefore modelled as a list of code units, each a
  natural number. \<open>js\<close> turns an ASCII literal into such a list.
\<close>

type_synonym jsstring = "nat list"

definition js :: "string \<Rightarrow> jsstring" where
  "js s = map of_char s"

text \<open>What a \<open>throw\<close> of the sources (or of the JavaScript runtime) carries.\<close>

datatype js_error =
    Error jsstring
  | TypeError
  | ReferenceError jsstring

section \<open>JSON values and \<open>JSON.parse\<close>\<close>

text \<open>
  The value that \<open>JSON.parse\<close> returns. A number is kept as the exact rational its
  literal denotes. The engine rounds it to the nearest double, so the two agree on the
  numerals that a double holds exactly (every integer of magnitude up to \<open>2^53\<close> among
  them) and differ elsewhere: \<open>9007199254740993\<close> is read as \<open>9007199254740992\<close>, and
  \<open>1e400\<close> as \<open>Infinity\<close>, which is no value of this type. Which texts are accepted
  does not depend on the rounding. An object is the list of its properties in
  JavaScript's enumeration order, with distinct keys.
\<close>

datatype json =
    JNull
  | JBool bool
  | JNum rat
  | JStr jsstring
  | JArr "json list"
  | JObj "(jsstring \<times> json) list"

abbreviation (input) QUOTE :: nat where "QUOTE \<equiv> 34"
abbreviation (input) BACKSLASH :: nat where "BACKSLASH \<equiv> 92"
abbreviation (input) LBRACE :: nat where "LBRACE \<equiv> 123"
abbreviation (input) RBRACE :: nat where "RBRACE \<equiv> 125"
abbreviation (input) LBRACKET :: nat where "LBRACKET \<equiv> 91"
abbreviation (input) RBRACKET :: nat where "RBRACKET \<equiv> 93"
abbreviation (input) COMMA :: nat where "COMMA \<equiv> 44"
abbreviation (input) COLON :: nat where "COLON \<equiv> 58"
abbreviation (input) NEWLINE :: nat where "NEWLINE \<equiv> 10"
abbreviation (input) BACKTICK :: nat where "BACKTICK \<equiv> 96"

text \<open>JSON's insignificant whitespace: tab, line feed, carriage return, space.\<close>

definition json_ws :: "nat \<Rightarrow> bool" where
  "json_ws c \<longleftrightarrow> c = 9 \<or> c = 10 \<or> c = 13 \<or> c = 32"

definition skip_ws :: "jsstring \<Rightarrow> jsstring" where
  "skip_ws s = dropWhile json_ws s"

definition is_digit :: "nat \<Rightarrow> bool" where
  "is_digit c \<longleftrightarrow> 48 \<le> c \<and> c \<le> 57"

definition hexval :: "nat \<Rightarrow> nat option" where
  "hexval c = (if 48 \<le> c \<and> c \<le> 57 then Some (c - 48)
               else if 97 \<le> c \<and> c \<le> 102 then Some (c - 87)
               else if 65 \<le> c \<and> c \<le> 70 then Some (c - 55)
               else None)"

text \<open>The character after a backslash in a JSON string: \<open>" \ / b f n r t\<close>.\<close>

definition unescape :: "nat \<Rightarrow> nat option" where
  "unescape e = (if e = QUOTE then Some QUOTE
                 else if e = BACKSLASH then Some BACKSLASH
                 else if e = 47 then Some 47
                 else if e = 98 then Some 8
                 else if e = 102 then Some 12
                 else if e = 110 then Some 10
                 else if e = 114 then Some 13
                 else if e = 116 then Some 9
                 else None)"

definition cons_fst :: "'a \<Rightarrow> ('a list \<times> 'b) option \<Rightarrow> ('a list \<times> 'b) option" where
  "cons_fst x r = map_option (\<lambda>(xs, rest). (x # xs, rest)) r"

text \<open>
  A string after its opening quote: the decoded string and what follows the closing
  quote. Control characters below U+0020 must be escaped.
\<close>

fun parse_string_body :: "jsstring \<Rightarrow> (jsstring \<times> jsstring) option" where
  "parse_string_body [] = None"
| "parse_string_body (c # cs) =
     (if c = QUOTE then Some ([], cs)
      else if c = BACKSLASH then
        (case cs of
           [] \<Rightarrow> None
         | e # cs1 \<Rightarrow>
             if e = 117 then
               (case cs1 of
                  h1 # h2 # h3 # h4 # cs2 \<Rightarrow>
                    (case (hexval h1, hexval h2, hexval h3, hexval h4) of
                       (Some a, Some b, Some c', Some d) \<Rightarrow>
                         cons_fst (((a * 16 + b) * 16 + c') * 16 + d) (parse_string_body cs2)
                     | _ \<Rightarrow> None)
                | _ \<Rightarrow> None)
             else (case unescape e of
                     Some u \<Rightarrow> cons_fst u (parse_string_body cs1)
                   | None \<Rightarrow> None))
      else if c < 32 then None
      else cons_fst c (parse_string_body cs))"

definition digits_value :: "jsstring \<Rightarrow> nat" where
  "digits_value ds = foldl (\<lambda>acc d. acc * 10 + (d - 48)) 0 ds"

text \<open>
  A number: \<open>-? (0 | [1-9][0-9]*) (. [0-9]+)? ([eE] [+-]? [0-9]+)?\<close>, starting at the head
  of the input. Each part is split off with the text it consumed.
\<close>

definition take_sign :: "jsstring \<Rightarrow> jsstring \<times> jsstring" where
  "take_sign s = (case s of [] \<Rightarrow> ([], s) | c # cs \<Rightarrow> if c = 45 then ([c], cs) else ([], s))"

definition take_int :: "jsstring \<Rightarrow> (jsstring \<times> jsstring) option" where
  "take_int s =
     (case s of
        [] \<Rightarrow> None
      | c # cs \<Rightarrow>
          if c = 48 then Some ([c], cs)
          else if is_digit c then Some (takeWhile is_digit s, dropWhile is_digit s)
          else None)"

definition take_frac :: "jsstring \<Rightarrow> (jsstring \<times> jsstring) option" where
  "take_frac s =
     (case s of
        [] \<Rightarrow> Some ([], s)
      | c # cs \<Rightarrow>
          if c = 46 then
            (if takeWhile is_digit cs = [] then None
             else Some (c # takeWhile is_digit cs, dropWhile is_digit cs))
          else Some ([], s))"

definition take_exp :: "jsstring \<Rightarrow> (jsstring \<times> jsstring) option" where
  "take_exp s =
     (case s of
        [] \<Rightarrow> Some ([], s)
      | c # cs \<Rightarrow>
          if c = 101 \<or> c = 69 then
            (case cs of
               [] \<Rightarrow> None
             | d # ds \<Rightarrow>
                 if d = 43 \<or> d = 45 then
                   (if takeWhile is_digit ds = [] then None
                    else Some (c # d # takeWhile is_digit ds, dropWhile is_digit ds))
                 else if takeWhile is_digit cs = [] then None
                 else Some (c # takeWhile is_digit cs, dropWhile is_digit cs))
          else Some ([], s))"

definition exp_value :: "jsstring \<Rightarrow> int" where
  "exp_value ex =
     (case ex of
        e # d # ds \<Rightarrow>
          if d = 45 then - int (digits_value ds)
          else if d = 43 then int (digits_value ds)
          else int (digits_value (d # ds))
      | _ \<Rightarrow> 0)"

definition number_value :: "jsstring \<Rightarrow> jsstring \<Rightarrow> jsstring \<Rightarrow> jsstring \<Rightarrow> rat" where
  "number_value sg ids fr ex =
     (let m = rat_of_nat (digits_value (ids @ tl fr));
          e = exp_value ex - int (length (tl fr));
          v = (if 0 \<le> e then m * 10 ^ nat e else m / 10 ^ nat (- e))
      in if sg = [] then v else - v)"

definition parse_number :: "jsstring \<Rightarrow> (rat \<times> jsstring) option" where
  "parse_number s =
     (case take_sign s of
        (sg, s1) \<Rightarrow>
          (case take_int s1 of
             None \<Rightarrow> None
           | Some (ids, s2) \<Rightarrow>
               (case take_frac s2 of
                  None \<Rightarrow> None
                | Some (fr, s3) \<Rightarrow>
                    (case take_exp s3 of
                       None \<Rightarrow> None
                     | Some (ex, s4) \<Rightarrow> Some (number_value sg ids fr ex, s4)))))"

text \<open>
  A property key that is an array index (a canonical decimal numeral below \<open>2^32 - 1\<close>)
  is enumerated before all other keys, in ascending numeric order; the other keys keep
  their insertion order. Defining a key a second time replaces its value in place.
\<close>

definition array_index :: "jsstring \<Rightarrow> nat option" where
  "array_index k =
     (if k \<noteq> [] \<and> list_all is_digit k \<and> (hd k \<noteq> 48 \<or> length k = 1)
         \<and> digits_value k < 4294967295
      then Some (digits_value k) else None)"

fun insert_index :: "nat \<Rightarrow> jsstring \<Rightarrow> json \<Rightarrow> (jsstring \<times> json) list \<Rightarrow> (jsstring \<times> json) list" where
  "insert_index i k v [] = [(k, v)]"
| "insert_index i k v ((k', v') # kvs) =
     (case array_index k' of
        Some j \<Rightarrow> if j < i then (k', v') # insert_index i k v kvs else (k, v) # (k', v') # kvs
      | None \<Rightarrow> (k, v) # (k', v') # kvs)"

definition obj_put :: "(jsstring \<times> json) list \<Rightarrow> jsstring \<Rightarrow> json \<Rightarrow> (jsstring \<times> json) list" where
  "obj_put kvs k v =
     (if k \<in> set (map fst kvs) then map (\<lambda>(k', v'). if k' = k then (k', v) else (k', v')) kvs
      else case array_index k of
             Some i \<Rightarrow> insert_index i k v kvs
           | None \<Rightarrow> kvs @ [(k, v)])"

definition build_object :: "(jsstring \<times> json) list \<Rightarrow> json" where
  "build_object members = JObj (foldl (\<lambda>kvs (k, v). obj_put kvs k v) [] members)"

text \<open>
  The recursive descent over values, array elements and object members. The first
  argument bounds the number of nested and consecutive calls; each call consumes at
  least one character of the input, so twice its length is enough (lemma
  \<open>parse_fuel_enough\<close> below).
\<close>

fun parse_value :: "nat \<Rightarrow> jsstring \<Rightarrow> (json \<times> jsstring) option"
  and parse_elements :: "nat \<Rightarrow> jsstring \<Rightarrow> (json list \<times> jsstring) option"
  and parse_members :: "nat \<Rightarrow> jsstring \<Rightarrow> ((jsstring \<times> json) list \<times> jsstring) option"
where
  "parse_value 0 s = None"
| "parse_value (Suc n) s =
     (case s of
        [] \<Rightarrow> None
      | c # cs \<Rightarrow>
          if c = LBRACE then
            (case skip_ws cs of
               [] \<Rightarrow> None
             | d # ds \<Rightarrow>
                 if d = RBRACE then Some (JObj [], ds)
                 else map_option (\<lambda>(ms, r). (build_object ms, r)) (parse_members n (d # ds)))
          else if c = LBRACKET then
            (case skip_ws cs of
               [] \<Rightarrow> None
             | d # ds \<Rightarrow>
                 if d = RBRACKET then Some (JArr [], ds)
                 else map_option (\<lambda>(vs, r). (JArr vs, r)) (parse_elements n (d # ds)))
          else if c = QUOTE then map_option (\<lambda>(str, r). (JStr str, r)) (parse_string_body cs)
          else if c = 45 \<or> is_digit c then map_option (\<lambda>(x, r). (JNum x, r)) (parse_number s)
          else if prefix (js ''true'') s then Some (JBool True, drop 4 s)
          else if prefix (js ''false'') s then Some (JBool False, drop 5 s)
          else if prefix (js ''null'') s then Some (JNull, drop 4 s)
          else None)"
| "parse_elements 0 s = None"
| "parse_elements (Suc n) s =
     (case parse_value n (skip_ws s) of
        None \<Rightarrow> None
      | Some (v, r) \<Rightarrow>
          (case skip_ws r of
             [] \<Rightarrow> None
           | d # ds \<Rightarrow>
               if d = COMMA then cons_fst v (parse_elements n ds)
               else if d = RBRACKET then Some ([v], ds)
               else None))"
| "parse_members 0 s = None"
| "parse_members (Suc n) s =
     (case skip_ws s of
        [] \<Rightarrow> None
      | q # cs \<Rightarrow>
          if q = QUOTE then
            (case parse_string_body cs of
               None \<Rightarrow> None
             | Some (k, r) \<Rightarrow>
                 (case skip_ws r of
                    [] \<Rightarrow> None
                  | col # r1 \<Rightarrow>
                      if col = COLON then
                        (case parse_value n (skip_ws r1) of
                           None \<Rightarrow> None
                         | Some (v, r2) \<Rightarrow>
                             (case skip_ws r2 of
                                [] \<Rightarrow> None
                              | d # ds \<Rightarrow>
                                  if d = COMMA then cons_fst (k, v) (parse_members n ds)
                                  else if d = RBRACE then Some ([(k, v)], ds)
                                  else None))
                      else None))
          else None)"

definition parse_fuel :: "jsstring \<Rightarrow> nat" where
  "parse_fuel s = 2 * length s + 2"

text \<open>\<open>JSON.parse(text)\<close>: one value between optional whitespace; \<open>None\<close> is the SyntaxError.\<close>

definition JSON_parse :: "jsstring \<Rightarrow> json option" where
  "JSON_parse text =
     (case parse_value (parse_fuel text) (skip_ws text) of
        None \<Rightarrow> None
      | Some (v, r) \<Rightarrow> if skip_ws r = [] then Some v else None)"

text \<open>
  A text is a well-formed JSON object when the parser reads an object from its first
  character and stops exactly at its end.
\<close>

definition json_object_text :: "jsstring \<Rightarrow> bool" where
  "json_object_text t =
     (case parse_value (parse_fuel t) t of
        Some (JObj kvs, []) \<Rightarrow> True
      | _ \<Rightarrow> False)"

section \<open>The response extractor: \<open>extractAndParseJSON\<close> (server)\<close>

text \<open>
  What \<open>String.prototype.trim\<close> removes and what \<open>\s\<close> matches: the WhiteSpace and
  LineTerminator code units.
\<close>

definition is_space :: "nat \<Rightarrow> bool" where
  "is_space c \<longleftrightarrow>
     (9 \<le> c \<and> c \<le> 13) \<or> c = 32 \<or> c = 160 \<or> c = 5760 \<or> (8192 \<le> c \<and> c \<le> 8202) \<or>
     c = 8232 \<or> c = 8233 \<or> c = 8239 \<or> c = 8287 \<or> c = 12288 \<or> c = 65279"

definition trim :: "jsstring \<Rightarrow> jsstring" where
  "trim s = rev (dropWhile is_space (rev (dropWhile is_space s)))"

text \<open>\<open>s.indexOf(pat)\<close> and \<open>s.lastIndexOf(pat)\<close>; \<open>None\<close> stands for \<open>-1\<close>.\<close>

fun indexOf :: "jsstring \<Rightarrow> jsstring \<Rightarrow> nat option" where
  "indexOf [] pat = (if pat = [] then Some 0 else None)"
| "indexOf (c # cs) pat =
     (if prefix pat (c # cs) then Some 0 else map_option Suc (indexOf cs pat))"

fun lastIndexOf :: "jsstring \<Rightarrow> jsstring \<Rightarrow> nat option" where
  "lastIndexOf [] pat = (if pat = [] then Some 0 else None)"
| "lastIndexOf (c # cs) pat =
     (case lastIndexOf cs pat of
        Some i \<Rightarrow> Some (Suc i)
      | None \<Rightarrow> if prefix pat (c # cs) then Some 0 else None)"

definition substring :: "jsstring \<Rightarrow> nat \<Rightarrow> nat \<Rightarrow> jsstring" where
  "substring s a b =
     (let a' = min a (length s); b' = min b (length s)
      in take (max a' b' - min a' b') (drop (min a' b') s))"

definition str_includes :: "jsstring \<Rightarrow> jsstring \<Rightarrow> bool" where
  "str_includes s pat \<longleftrightarrow> indexOf s pat \<noteq> None"

definition startsWith :: "jsstring \<Rightarrow> nat \<Rightarrow> bool" where
  "startsWith s c = (case s of [] \<Rightarrow> False | d # ds \<Rightarrow> d = c)"

definition endsWith :: "jsstring \<Rightarrow> nat \<Rightarrow> bool" where
  "endsWith s c = (s \<noteq> [] \<and> last s = c)"

text \<open>
  The two regular expressions \<open>/```json\s*\n([\s\S]*?)\n```/\<close> and
  \<open>/```\s*\n([\s\S]*?)\n```/\<close> differ in their opening literal only. A match is tried at
  every start position from the left. After the opening literal, the greedy \<open>\s*\<close> first
  takes the whole run of whitespace and gives characters back one at a time until the
  next character is a line feed and the rest of the pattern matches; the lazy group then
  ends at the first \<open>\n```\<close>. \<open>fence_attempt k\<close> is the try in which \<open>\s*\<close> keeps \<open>k\<close>
  characters. The result is the captured group.
\<close>

definition fence_close :: jsstring where
  "fence_close = [NEWLINE, BACKTICK, BACKTICK, BACKTICK]"

definition fence_attempt :: "nat \<Rightarrow> jsstring \<Rightarrow> jsstring option" where
  "fence_attempt k rest =
     (if k < length rest \<and> rest ! k = NEWLINE then
        (case indexOf (drop (Suc k) rest) fence_close of
           Some j \<Rightarrow> Some (take j (drop (Suc k) rest))
         | None \<Rightarrow> None)
      else None)"

fun fence_backtrack :: "nat \<Rightarrow> jsstring \<Rightarrow> jsstring option" where
  "fence_backtrack 0 rest = fence_attempt 0 rest"
| "fence_backtrack (Suc k) rest =
     (case fence_attempt (Suc k) rest of
        Some body \<Rightarrow> Some body
      | None \<Rightarrow> fence_backtrack k rest)"

definition fence_body :: "jsstring \<Rightarrow> jsstring option" where
  "fence_body rest = fence_backtrack (length (takeWhile is_space rest)) rest"

fun match_fence :: "jsstring \<Rightarrow> jsstring \<Rightarrow> jsstring option" where
  "match_fence opening [] = None"
| "match_fence opening (c # cs) =
     (if prefix opening (c # cs) then
        (case fence_body (drop (length opening) (c # cs)) of
           Some body \<Rightarrow> Some body
         | None \<Rightarrow> match_fence opening cs)
      else match_fence opening cs)"

definition json_fence_open :: jsstring where
  "json_fence_open = js ''```json''"

definition plain_fence_open :: jsstring where
  "plain_fence_open = js ''```''"

text \<open>
  The loop over \<open>jsonContent[i]\<close> for \<open>i\<close> from \<open>firstBrace\<close>: the first argument is the
  text from position \<open>i\<close> on; the result is \<open>(braceCount, jsonEnd)\<close> after the loop.
\<close>

fun brace_scan :: "jsstring \<Rightarrow> nat \<Rightarrow> int \<Rightarrow> nat \<Rightarrow> bool \<Rightarrow> bool \<Rightarrow> int \<times> nat" where
  "brace_scan [] i braceCount jsonEnd inString escapeNext = (braceCount, jsonEnd)"
| "brace_scan (c # cs) i braceCount jsonEnd inString escapeNext =
     (if escapeNext then brace_scan cs (Suc i) braceCount jsonEnd inString False
      else if c = BACKSLASH then brace_scan cs (Suc i) braceCount jsonEnd inString True
      else if c = QUOTE then brace_scan cs (Suc i) braceCount jsonEnd (\<not> inString) escapeNext
      else if \<not> inString then
        (let braceCount1 = (if c = LBRACE then braceCount + 1 else braceCount);
             braceCount2 = (if c = RBRACE then braceCount1 - 1 else braceCount1)
         in if braceCount2 = 0 then (braceCount2, Suc i)
            else brace_scan cs (Suc i) braceCount2 jsonEnd inString escapeNext)
      else brace_scan cs (Suc i) braceCount jsonEnd inString escapeNext)"

definition no_json_message :: jsstring where
  "no_json_message = js ''No JSON content extracted from API response''"

definition extractAndParseJSON :: "jsstring \<Rightarrow> js_error + jsstring" where
  "extractAndParseJSON content =
     (let jsonContent0 = trim content;
          jsonContent1 =
            (case match_fence json_fence_open jsonContent0 of
               Some body \<Rightarrow> trim body
             | None \<Rightarrow>
                 (case match_fence plain_fence_open jsonContent0 of
                    Some body \<Rightarrow> trim body
                  | None \<Rightarrow>
                      (case indexOf jsonContent0 [LBRACE] of
                         Some firstBrace \<Rightarrow>
                           (let (braceCount, jsonEnd) =
                                  brace_scan (drop firstBrace jsonContent0) firstBrace 0 firstBrace
                                    False False
                            in if braceCount = 0 then substring jsonContent0 firstBrace jsonEnd
                               else drop firstBrace jsonContent0)
                       | None \<Rightarrow> jsonContent0)));
          jsonContent2 = trim jsonContent1;
          jsonContent3 =
            (if \<not> startsWith jsonContent2 LBRACE then
               (case indexOf jsonContent2 [LBRACE] of
                  Some firstBrace \<Rightarrow> drop firstBrace jsonContent2
                | None \<Rightarrow> jsonContent2)
             else jsonContent2);
          jsonContent4 =
            (if \<not> endsWith jsonContent3 RBRACE then
               (case lastIndexOf jsonContent3 [RBRACE] of
                  Some lastBrace \<Rightarrow>
                    if lastBrace > 0 then take (Suc lastBrace) jsonContent3 else jsonContent3
                | None \<Rightarrow> jsonContent3)
             else jsonContent3)
      in if length jsonContent4 = 0 then Inl (Error no_json_message) else Inr jsonContent4)"

section \<open>Property reads and writes on parsed values\<close>

text \<open>
  A JavaScript value read from a parsed document is a \<open>json\<close> value or \<open>undefined\<close>
  (\<open>None\<close>). \<open>truthy\<close> is the test of \<open>||\<close>, \<open>&&\<close>, \<open>!\<close> and \<open>if\<close>.
\<close>

definition truthy :: "json option \<Rightarrow> bool" where
  "truthy v =
     (case v of
        None \<Rightarrow> False
      | Some JNull \<Rightarrow> False
      | Some (JBool b) \<Rightarrow> b
      | Some (JNum x) \<Rightarrow> x \<noteq> 0
      | Some (JStr s) \<Rightarrow> s \<noteq> []
      | Some (JArr xs) \<Rightarrow> True
      | Some (JObj kvs) \<Rightarrow> True)"

definition js_or :: "json option \<Rightarrow> json option \<Rightarrow> json option" where
  "js_or a b = (if truthy a then a else b)"

text \<open>
  \<open>v.k\<close> for a value \<open>v\<close> that is neither \<open>null\<close> nor \<open>undefined\<close>, and a name \<open>k\<close> that
  is neither an index nor a method name: an object yields its own property, a string or
  an array has \<open>length\<close>, everything else is \<open>undefined\<close>.
\<close>

definition js_get :: "json \<Rightarrow> jsstring \<Rightarrow> json option" where
  "js_get v k =
     (case v of
        JObj kvs \<Rightarrow> map_of kvs k
      | JArr xs \<Rightarrow> if k = js ''length'' then Some (JNum (of_nat (length xs))) else None
      | JStr s \<Rightarrow> if k = js ''length'' then Some (JNum (of_nat (length s))) else None
      | _ \<Rightarrow> None)"

text \<open>\<open>v?.k\<close>: \<open>undefined\<close> when \<open>v\<close> is \<open>null\<close> or \<open>undefined\<close>.\<close>

definition js_get_opt :: "json option \<Rightarrow> jsstring \<Rightarrow> json option" where
  "js_get_opt v k =
     (case v of None \<Rightarrow> None | Some JNull \<Rightarrow> None | Some x \<Rightarrow> js_get x k)"

text \<open>
  \<open>v.k = x\<close> in module code (strict mode) for a non-index name \<open>k\<close>: on an object the
  property is defined or replaced; on an array it is set on the array object but is no
  part of its JSON form; on \<open>null\<close> and on a primitive it throws a TypeError.
\<close>

definition set_property :: "json \<Rightarrow> jsstring \<Rightarrow> json \<Rightarrow> js_error + json" where
  "set_property v k x =
     (case v of
        JObj kvs \<Rightarrow> Inr (JObj (obj_put kvs k x))
      | JArr xs \<Rightarrow> Inr (JArr xs)
      | _ \<Rightarrow> Inl TypeError)"

text \<open>The decimal numeral of a natural number, as in \<open>`${n}`\<close>.\<close>

fun decimal :: "nat \<Rightarrow> jsstring" where
  "decimal n = (if n < 10 then [48 + n] else decimal (n div 10) @ [48 + n mod 10])"

declare decimal.simps [simp del]

datatype path_step = Key jsstring | Idx nat

text \<open>The value at a path of property names and array indices, if there is one.\<close>

fun json_at :: "json \<Rightarrow> path_step list \<Rightarrow> json option" where
  "json_at v [] = Some v"
| "json_at (JObj kvs) (Key k # p) = (case map_of kvs k of None \<Rightarrow> None | Some x \<Rightarrow> json_at x p)"
| "json_at (JArr xs) (Idx i # p) = (if i < length xs then json_at (xs ! i) p else None)"
| "json_at v (st # p) = None"

section \<open>Course creation: \<open>generateCourseContent\<close> and the upload handler (server)\<close>

text \<open>
  The identifiers bound where the handler of a failed \<open>JSON.parse\<close> builds its error
  summary (the object literal with \<open>stopReason: message.stop_reason\<close>): the parameter
  and the \<open>const\<close>s of \<open>generateCourseContent\<close> and of the two enclosing blocks, the imports
  and top-level declarations of the module, and the globals the function uses. The
  parameter \<open>message\<close> belongs to \<open>extractAndParseJSON\<close>, and the \<open>const message\<close> of the
  outer \<open>catch\<close> is local to another block.
\<close>

definition generateCourseContent_scope :: "string list" where
  "generateCourseContent_scope =
     [''markdownFiles'', ''combinedContent'', ''contentSize'', ''prompt'', ''response'', ''data'',
      ''content'', ''rawResponsePath'', ''jsonContent'', ''parseError'', ''isIncompleteError'',
      ''positionMatch'', ''debugPath'', ''summaryPath'',
      ''express'', ''cors'', ''multer'', ''fs'', ''createWriteStream'', ''path'', ''fileURLToPath'',
      ''archiver'', ''marked'', ''dotenv'', ''supabase'', ''__filename'', ''__dirname'', ''app'',
      ''PORT'', ''GROK_API_URL'', ''GROK_API_KEY'', ''storage'', ''upload'', ''ensureUploadsDir'',
      ''checkSupabase'', ''readMarkdownFiles'', ''extractAndParseJSON'', ''generateCourseContent'',
      ''generateStandaloneApp'',
      ''console'', ''JSON'', ''Math'', ''Buffer'', ''Error'', ''fetch'', ''process'', ''parseInt'']"

text \<open>Reading a variable: an identifier that is not bound throws a ReferenceError.\<close>

definition read_variable :: "string list \<Rightarrow> string \<Rightarrow> js_error + unit" where
  "read_variable scope x =
     (if x \<in> set scope then Inr () else Inl (ReferenceError (js x @ js '' is not defined'')))"

text \<open>
  \<open>generateCourseContent\<close> from the point where the reply text \<open>content\<close> has arrived:
  \<^verbatim>\<open>
  if (!content) throw new Error('No text content found in Grok API response');
  const jsonContent = extractAndParseJSON(content, data);
  try { const parsed = JSON.parse(jsonContent); return parsed; }
  catch (parseError) {
    const isIncompleteError = parseError.message.includes('Unexpected end of JSON input')
                           || parseError.message.includes('end of data');
    ...
    await fs.writeFile(summaryPath, JSON.stringify({ error: parseError.message, ...,
        stopReason: message.stop_reason, usage: message.usage }, null, 2), 'utf-8');
    throw new Error(`Failed to parse JSON response from Grok: ${parseError.message}. ${
        isIncompleteError ? 'Response appears to be truncated - check logs for details.' : ''}`);
  }
  \<close>
  The outer \<open>catch\<close> rethrows these errors unchanged. \<open>parseErrorMessage\<close> is the message
  of the engine's SyntaxError. The writes of the debug files are taken to succeed and
  are left out.
\<close>

definition generateCourseContent_from_reply :: "jsstring \<Rightarrow> jsstring \<Rightarrow> js_error + json" where
  "generateCourseContent_from_reply parseErrorMessage content =
     (if content = [] then Inl (Error (js ''No text content found in Grok API response''))
      else
        case extractAndParseJSON content of
          Inl e \<Rightarrow> Inl e
        | Inr jsonContent \<Rightarrow>
            (case JSON_parse jsonContent of
               Some parsed \<Rightarrow> Inr parsed
             | None \<Rightarrow>
                 (let isIncompleteError =
                        (str_includes parseErrorMessage (js ''Unexpected end of JSON input'') \<or>
                         str_includes parseErrorMessage (js ''end of data''))
                  in case read_variable generateCourseContent_scope ''message'' of
                       Inl e \<Rightarrow> Inl e
                     | Inr u \<Rightarrow>
                         Inl (Error (js ''Failed to parse JSON response from Grok: '' @
                                     parseErrorMessage @ js ''. '' @
                                     (if isIncompleteError
                                      then js ''Response appears to be truncated - check logs for details.''
                                      else []))))))"

text \<open>
  A row of the table \<open>courses\<close>. \<open>created_at\<close> and \<open>updated_at\<close> are instants, in
  milliseconds since the epoch; \<open>title\<close> and \<open>description\<close> hold what the handler passed.
\<close>

record course_row =
  row_id :: jsstring
  row_title :: "json option"
  row_description :: "json option"
  created_at :: nat
  updated_at :: nat
  course_data :: json

text \<open>What \<open>new Date()\<close> reads: the instant and its \<open>toISOString()\<close>.\<close>

record clock_reading =
  instant :: nat
  iso :: jsstring

text \<open>
  The upload handler (and, identically, \<open>/api/create-course\<close>) once
  \<open>generateCourseContent\<close> has returned \<open>courseData\<close>:
  \<^verbatim>\<open>
  const courseId = `course-${Date.now()}`;
  courseData.id = courseId;
  courseData.createdAt = new Date().toISOString();
  checkSupabase();
  const { error } = await supabase.from('courses').insert({ id: courseId,
      title: courseData.title, description: courseData.description,
      created_at: courseData.createdAt, updated_at: courseData.createdAt,
      course_data: courseData });
  if (error) throw error;
  res.json({ courseId, course: courseData });
  \<close>
  \<open>now\<close> is the value of \<open>Date.now()\<close>, \<open>date\<close> what \<open>new Date()\<close> reads, and \<open>fault\<close> the
  error of \<open>checkSupabase\<close> or of the insert, if any. The result is the table after the
  insert, the course id and the course of the response.
\<close>

definition store_course ::
  "nat \<Rightarrow> clock_reading \<Rightarrow> js_error option \<Rightarrow> course_row list \<Rightarrow> json
     \<Rightarrow> js_error + (course_row list \<times> jsstring \<times> json)" where
  "store_course now date fault table courseData =
     (let courseId = js ''course-'' @ decimal now in
      case set_property courseData (js ''id'') (JStr courseId) of
        Inl e \<Rightarrow> Inl e
      | Inr c1 \<Rightarrow>
          (case set_property c1 (js ''createdAt'') (JStr (iso date)) of
             Inl e \<Rightarrow> Inl e
           | Inr c2 \<Rightarrow>
               (case fault of
                  Some e \<Rightarrow> Inl e
                | None \<Rightarrow>
                    Inr (table @ [\<lparr>row_id = courseId,
                                    row_title = js_get c2 (js ''title''),
                                    row_description = js_get c2 (js ''description''),
                                    created_at = instant date, updated_at = instant date,
                                    course_data = c2\<rparr>],
                         courseId, c2))))"

definition create_course_from_reply ::
  "jsstring \<Rightarrow> nat \<Rightarrow> clock_reading \<Rightarrow> js_error option \<Rightarrow> course_row list \<Rightarrow> jsstring
     \<Rightarrow> js_error + (course_row list \<times> jsstring \<times> json)" where
  "create_course_from_reply parseErrorMessage now date fault table content =
     (case generateCourseContent_from_reply parseErrorMessage content of
        Inl e \<Rightarrow> Inl e
      | Inr courseData \<Rightarrow> store_course now date fault table courseData)"

text \<open>What the table holds for the course just created, at a path into its document.\<close>

definition stored_at ::
  "js_error + (course_row list \<times> jsstring \<times> json) \<Rightarrow> path_step list \<Rightarrow> json option" where
  "stored_at res p =
     (case res of
        Inl e \<Rightarrow> None
      | Inr (table, courseId, c) \<Rightarrow>
          if table = [] then None else json_at (course_data (last table)) p)"

text \<open>The reply of the scenario, the clock readings of a run, and the path to its answer.\<close>

definition ex_reply :: jsstring where
  "ex_reply = js ''{\"title\":\"T\",\"lessons\":[{\"id\":\"l1\",\"questions\":[{\"id\":\"q1\",\"options\":[\"a\",\"b\"],\"correctAnswer\":5,\"explanation\":\"e\",\"question\":\"Q\"}]}]}''"

definition ex_date :: clock_reading where
  "ex_date = \<lparr>instant = 1733443200124, iso = js ''2024-12-06T00:00:00.124Z''\<rparr>"

definition ex_answer_path :: "path_step list" where
  "ex_answer_path = [Idx 0, Key (js ''questions''), Idx 0, Key (js ''correctAnswer'')]"

definition ex_truncated :: jsstring where
  "ex_truncated = js ''{\"title\":\"T\",\"lessons\":[''"

section \<open>Listing the courses: \<open>GET /api/courses\<close> (server)\<close>

text \<open>
  \<^verbatim>\<open>
  const cutoffDate = '2024-12-06T00:00:00.000Z';
  const { data, error } = await supabase.from('courses')
    .select('id, title, description, created_at, course_data')
    .gte('created_at', cutoffDate)
    .order('created_at', { ascending: false });
  if (error) throw error;
  const courseList = (data || []).map(row => ({ id: row.id, title: row.title,
    description: row.description, createdAt: row.created_at,
    lessonCount: row.course_data?.lessons?.length || 0 }));
  \<close>
  The cutoff is the instant 2024-12-06T00:00:00.000Z. The query keeps the rows created at
  or after it and orders them by \<open>created_at\<close>, latest first; rows with equal
  \<open>created_at\<close> keep their table order here.
\<close>

definition cutoffDate :: nat where
  "cutoffDate = 1733443200000"

record course_summary =
  s_id :: jsstring
  s_title :: "json option"
  s_description :: "json option"
  s_createdAt :: nat
  lessonCount :: "json option"

fun insert_desc :: "course_row \<Rightarrow> course_row list \<Rightarrow> course_row list" where
  "insert_desc r [] = [r]"
| "insert_desc r (x # xs) =
     (if created_at x \<ge> created_at r then x # insert_desc r xs else r # x # xs)"

definition order_desc :: "course_row list \<Rightarrow> course_row list" where
  "order_desc rows = foldr insert_desc rows []"

definition select_courses :: "course_row list \<Rightarrow> course_row list" where
  "select_courses table = order_desc (filter (\<lambda>r. cutoffDate \<le> created_at r) table)"

definition summary :: "course_row \<Rightarrow> course_summary" where
  "summary row =
     \<lparr>s_id = row_id row, s_title = row_title row, s_description = row_description row,
      s_createdAt = created_at row,
      lessonCount =
        js_or (js_get_opt (js_get_opt (Some (course_data row)) (js ''lessons'')) (js ''length''))
              (Some (JNum 0))\<rparr>"

definition list_courses :: "js_error option \<Rightarrow> course_row list \<Rightarrow> js_error + course_summary list" where
  "list_courses fault table =
     (case fault of
        Some e \<Rightarrow> Inl e
      | None \<Rightarrow> Inr (map summary (select_courses table)))"

section \<open>The static exporter: \<open>generateStandaloneApp\<close> (server)\<close>

text \<open>
  What the code takes from its runtime. \<open>fraction_text\<close> is the text of a number that is
  not an integer below \<open>10^21\<close> (\<open>Number.prototype.toString\<close>), and \<open>string_positive\<close>
  tells whether a string, converted to a number, is greater than 0; both are fixed by
  the language and not spelled out here. \<open>clock\<close> and \<open>random\<close> are what \<open>Date.now()\<close>
  and \<open>Math.random()\<close> would return: the two sources of values that differ from one call
  to the next.
\<close>

record runtime =
  fraction_text :: "rat \<Rightarrow> jsstring"
  string_positive :: "jsstring \<Rightarrow> bool"
  clock :: nat
  random :: "nat \<Rightarrow> nat"

fun join_lines :: "string list \<Rightarrow> string" where
  "join_lines [] = []"
| "join_lines [l] = l"
| "join_lines (l # m # ls) = l @ CHR 0x0A # join_lines (m # ls)"

text \<open>The text of a template literal, given line by line.\<close>

definition js_lines :: "string list \<Rightarrow> jsstring" where
  "js_lines ls = js (join_lines ls)"

fun join_with :: "jsstring \<Rightarrow> jsstring list \<Rightarrow> jsstring" where
  "join_with sep [] = []"
| "join_with sep [x] = x"
| "join_with sep (x # y # xs) = x @ sep @ join_with sep (y # xs)"

definition number_text :: "runtime \<Rightarrow> rat \<Rightarrow> jsstring" where
  "number_text rt x =
     (case quotient_of x of
        (n, d) \<Rightarrow>
          if d = 1 \<and> \<bar>n\<bar> < 10 ^ 21
          then (if n < 0 then 45 # decimal (nat (- n)) else decimal (nat n))
          else fraction_text rt x)"

text \<open>
  \<open>String(v)\<close>, and \<open>${v}\<close> in a template literal: an array is its elements joined by
  commas, with \<open>null\<close> as the empty string; an object is \<open>[object Object]\<close>.
\<close>

fun to_text :: "runtime \<Rightarrow> json \<Rightarrow> jsstring" where
  "to_text rt JNull = js ''null''"
| "to_text rt (JBool b) = (if b then js ''true'' else js ''false'')"
| "to_text rt (JNum x) = number_text rt x"
| "to_text rt (JStr s) = s"
| "to_text rt (JArr xs) =
     join_with [COMMA] (map (\<lambda>v. if v = JNull then [] else to_text rt v) xs)"
| "to_text rt (JObj kvs) = js ''[object Object]''"

definition interpolate :: "runtime \<Rightarrow> json option \<Rightarrow> jsstring" where
  "interpolate rt v = (case v of None \<Rightarrow> js ''undefined'' | Some x \<Rightarrow> to_text rt x)"

text \<open>\<open>v > 0\<close>, with the conversion of \<open>v\<close> to a number.\<close>

definition gt_zero :: "runtime \<Rightarrow> json option \<Rightarrow> bool" where
  "gt_zero rt v =
     (case v of
        None \<Rightarrow> False
      | Some JNull \<Rightarrow> False
      | Some (JBool b) \<Rightarrow> b
      | Some (JNum x) \<Rightarrow> 0 < x
      | Some (JStr s) \<Rightarrow> string_positive rt s
      | Some (JArr xs) \<Rightarrow> string_positive rt (to_text rt (JArr xs))
      | Some (JObj kvs) \<Rightarrow> False)"

text \<open>\<open>s.replace(/c/g, rep)\<close> for a single character \<open>c\<close>.\<close>

definition replace_char :: "nat \<Rightarrow> jsstring \<Rightarrow> jsstring \<Rightarrow> jsstring" where
  "replace_char c rep s = concat (map (\<lambda>x. if x = c then rep else [x]) s)"

text \<open>
  \<^verbatim>\<open>
  const escapeHtml = (text) => {
    if (text == null) return '';
    return String(text).replace(/&/g, '&amp;').replace(/</g, '&lt;').replace(/>/g, '&gt;')
      .replace(/"/g, '&quot;').replace(/'/g, '&#039;');
  };
  \<close>
\<close>

definition escapeHtml :: "runtime \<Rightarrow> json option \<Rightarrow> jsstring" where
  "escapeHtml rt text =
     (case text of
        None \<Rightarrow> []
      | Some JNull \<Rightarrow> []
      | Some v \<Rightarrow>
          replace_char 39 (js ''&#039;'')
            (replace_char 34 (js ''&quot;'')
              (replace_char 62 (js ''&gt;'')
                (replace_char 60 (js ''&lt;'')
                  (replace_char 38 (js ''&amp;'') (to_text rt v))))))"

text \<open>
  \<open>x.replace(/[^a-zA-Z0-9-_]/g, '-')\<close>: only a string has the method \<open>replace\<close>.
\<close>

definition id_char :: "nat \<Rightarrow> bool" where
  "id_char c \<longleftrightarrow> (97 \<le> c \<and> c \<le> 122) \<or> (65 \<le> c \<and> c \<le> 90) \<or> (48 \<le> c \<and> c \<le> 57) \<or> c = 45 \<or> c = 95"

definition sanitize_id :: "json option \<Rightarrow> js_error + jsstring" where
  "sanitize_id x =
     (case x of
        Some (JStr s) \<Rightarrow> Inr (map (\<lambda>c. if id_char c then c else 45) s)
      | _ \<Rightarrow> Inl TypeError)"

text \<open>
  The receiver of \<open>.map(...)\<close> or \<open>.forEach(...)\<close>: only an array has these methods.
\<close>

definition as_array :: "json option \<Rightarrow> js_error + json list" where
  "as_array x = (case x of Some (JArr xs) \<Rightarrow> Inr xs | _ \<Rightarrow> Inl TypeError)"

text \<open>\<open>x && x.length > 0\<close>.\<close>

definition nonempty_guard :: "runtime \<Rightarrow> json option \<Rightarrow> bool" where
  "nonempty_guard rt x \<longleftrightarrow> truthy x \<and> gt_zero rt (js_get_opt x (js ''length''))"

text \<open>The results of a callback over the elements, up to the first throw.\<close>

fun collect :: "(js_error + 'a) list \<Rightarrow> js_error + 'a list" where
  "collect [] = Inr []"
| "collect (r # rs) =
     (case r of
        Inl e \<Rightarrow> Inl e
      | Inr x \<Rightarrow> (case collect rs of Inl e \<Rightarrow> Inl e | Inr xs \<Rightarrow> Inr (x # xs)))"

definition indexed :: "'a list \<Rightarrow> (nat \<times> 'a) list" where
  "indexed xs = zip [0..<length xs] xs"

text \<open>
  The pieces of \<open>generateLessonsHTML\<close>, innermost first. Reading a property of \<open>null\<close>
  throws a TypeError; on any other value it yields the property or \<open>undefined\<close>.
\<close>

definition option_html :: "runtime \<Rightarrow> jsstring \<Rightarrow> nat \<times> json \<Rightarrow> jsstring" where
  "option_html rt safeQuestionId = (\<lambda>(idx, option).
         js_lines [[],
           ''                <div class=\"option\" '',
           ''                     data-question-id=\"''] @
         safeQuestionId @
         js_lines [''\" '',
           ''                     data-option-index=\"''] @
         decimal idx @
         js_lines [''\"'',
           (''                     onclick=\"handleAnswerSelect('' @ [CHR 0x27])] @
         safeQuestionId @
         js_lines [([CHR 0x27] @ '', '')] @
         decimal idx @
         js_lines ['')\">'',
           ''                  ''] @
         escapeHtml rt (Some option) @
         js_lines [[],
           ''                </div>''])"

definition question_html :: "runtime \<Rightarrow> nat \<Rightarrow> nat \<times> json \<Rightarrow> js_error + jsstring" where
  "question_html rt lessonIdx = (\<lambda>(qIdx, q).
     if q = JNull then Inl TypeError
     else
       case sanitize_id (js_or (js_get q (js ''id''))
                           (Some (JStr (js ''q-'' @ decimal lessonIdx @ js ''-'' @ decimal qIdx)))) of
         Inl e \<Rightarrow> Inl e
       | Inr questionId \<Rightarrow>
           (let safeQuestionId = escapeHtml rt (Some (JStr questionId)) in
            case as_array (js_or (js_get q (js ''options'')) (Some (JArr []))) of
              Inl e \<Rightarrow> Inl e
            | Inr opts \<Rightarrow>
                Inr (js_lines [[],
                       ''            <div class=\"question\" data-question-id=\"''] @
                     safeQuestionId @
                     js_lines [''\">'',
                       ''              <h4>''] @
                     escapeHtml rt (js_or (js_get q (js ''question'')) (Some (JStr []))) @
                     js_lines [''</h4>'',
                       ''              <div class=\"options\">''] @
                     concat (map (option_html rt safeQuestionId) (indexed opts)) @
                     js_lines [[],
                       ''              </div>'',
                       ''              <button class=\"check-btn\" '',
                       ''                      id=\"check-btn-''] @
                     safeQuestionId @
                     js_lines [''\" '',
                       (''                      onclick=\"checkAnswer('' @ [CHR 0x27])] @
                     safeQuestionId @
                     js_lines [([CHR 0x27] @ '', '')] @
                     interpolate rt (js_or (js_get q (js ''correctAnswer'')) (Some (JNum 0))) @
                     js_lines ['')\"'',
                       ''                      style=\"display: none;\">'',
                       ''                Check Answer'',
                       ''              </button>'',
                       ''              <div class=\"explanation\" id=\"explanation-''] @
                     safeQuestionId @
                     js_lines [''\" style=\"display: none;\">'',
                       ''                <strong>Explanation:</strong> ''] @
                     escapeHtml rt (js_or (js_get q (js ''explanation'')) (Some (JStr []))) @
                     js_lines [[],
                       ''              </div>'',
                       ''            </div>''])))"

definition questions_section :: "runtime \<Rightarrow> nat \<Rightarrow> json \<Rightarrow> js_error + jsstring" where
  "questions_section rt lessonIdx lesson =
     (if nonempty_guard rt (js_get lesson (js ''questions'')) then
        (case as_array (js_get lesson (js ''questions'')) of
           Inl e \<Rightarrow> Inl e
         | Inr qs \<Rightarrow>
             (case collect (map (question_html rt lessonIdx) (indexed qs)) of
                Inl e \<Rightarrow> Inl e
              | Inr htmls \<Rightarrow>
                  Inr (js_lines [[],
                         ''          <div class=\"questions-section\">'',
                         ''            <h3>Questions</h3>''] @
                       concat htmls @
                       js_lines [[],
                         ''          </div>''])))
      else Inr [])"

definition testCase_html :: "runtime \<Rightarrow> json \<Rightarrow> js_error + jsstring" where
  "testCase_html rt testCase =
     (if testCase = JNull then Inl TypeError
      else Inr (js_lines [[],
                  ''                  <li>'',
                  ''                    Input: <code>''] @
                escapeHtml rt (js_or (js_get testCase (js ''input'')) (Some (JStr []))) @
                js_lines [''</code> ''] @
                [226, 8224, 8217] @
                js_lines ['' '',
                  ''                    Expected: <code>''] @
                escapeHtml rt (js_or (js_get testCase (js ''expectedOutput'')) (Some (JStr []))) @
                js_lines [''</code>'',
                  ''                  </li>'']))"

definition testCases_block :: "runtime \<Rightarrow> json \<Rightarrow> js_error + jsstring" where
  "testCases_block rt ex =
     (if nonempty_guard rt (js_get ex (js ''testCases'')) then
        (case as_array (js_get ex (js ''testCases'')) of
           Inl e \<Rightarrow> Inl e
         | Inr tcs \<Rightarrow>
             (case collect (map (testCase_html rt) tcs) of
                Inl e \<Rightarrow> Inl e
              | Inr htmls \<Rightarrow>
                  Inr (js_lines [[],
                         ''              <div class=\"test-cases\">'',
                         ''                <strong>Test Cases:</strong>'',
                         ''                <ul>''] @
                       concat htmls @
                       js_lines [[],
                         ''                </ul>'',
                         ''              </div>''])))
      else Inr [])"

definition exercise_html :: "runtime \<Rightarrow> nat \<Rightarrow> nat \<times> json \<Rightarrow> js_error + jsstring" where
  "exercise_html rt lessonIdx = (\<lambda>(exIdx, ex).
     if ex = JNull then Inl TypeError
     else
       case sanitize_id (js_or (js_get ex (js ''id''))
                           (Some (JStr (js ''ex-'' @ decimal lessonIdx @ js ''-'' @ decimal exIdx)))) of
         Inl e \<Rightarrow> Inl e
       | Inr exerciseId \<Rightarrow>
           (let safeExerciseId = escapeHtml rt (Some (JStr exerciseId)) in
            case testCases_block rt ex of
              Inl e \<Rightarrow> Inl e
            | Inr tests \<Rightarrow>
                Inr (js_lines [[],
                       ''            <div class=\"coding-exercise\" data-exercise-id=\"''] @
                     safeExerciseId @
                     js_lines [''\">'',
                       ''              <h4>''] @
                     escapeHtml rt (js_or (js_get ex (js ''title'')) (Some (JStr []))) @
                     js_lines [''</h4>'',
                       ''              <p>''] @
                     escapeHtml rt (js_or (js_get ex (js ''description'')) (Some (JStr []))) @
                     js_lines [''</p>''] @
                     tests @
                     js_lines [[],
                       ''              <div class=\"editor-container\">'',
                       ''                <textarea id=\"code-editor-''] @
                     safeExerciseId @
                     js_lines [''\" '',
                       ''                          class=\"code-textarea\"'',
                       ''                          spellcheck=\"false\">''] @
                     escapeHtml rt (js_or (js_get ex (js ''starterCode'')) (Some (JStr []))) @
                     js_lines [''</textarea>'',
                       ''              </div>'',
                       ''              <button class=\"solution-btn\" '',
                       (''                      onclick=\"toggleCodeSolution('' @ [CHR 0x27])] @
                     safeExerciseId @
                     js_lines [([CHR 0x27] @ '')\">''),
                       ''                Show Solution'',
                       ''              </button>'',
                       ''              <div class=\"solution\" id=\"solution-''] @
                     safeExerciseId @
                     js_lines [''\" style=\"display: none;\">'',
                       ''                <strong>Solution:</strong>'',
                       ''                <pre><code>''] @
                     escapeHtml rt (js_or (js_get ex (js ''solution'')) (Some (JStr []))) @
                     js_lines [''</code></pre>'',
                       ''              </div>'',
                       ''            </div>''])))"

definition coding_section :: "runtime \<Rightarrow> nat \<Rightarrow> json \<Rightarrow> js_error + jsstring" where
  "coding_section rt lessonIdx lesson =
     (if nonempty_guard rt (js_get lesson (js ''codingExercises'')) then
        (case as_array (js_get lesson (js ''codingExercises'')) of
           Inl e \<Rightarrow> Inl e
         | Inr exs \<Rightarrow>
             (case collect (map (exercise_html rt lessonIdx) (indexed exs)) of
                Inl e \<Rightarrow> Inl e
              | Inr htmls \<Rightarrow>
                  Inr (js_lines [[],
                         ''          <div class=\"coding-section\">'',
                         ''            <h3>Coding Exercises</h3>''] @
                       concat htmls @
                       js_lines [[],
                         ''          </div>''])))
      else Inr [])"

definition lesson_html :: "runtime \<Rightarrow> nat \<times> json \<Rightarrow> js_error + jsstring" where
  "lesson_html rt = (\<lambda>(lessonIdx, lesson).
     if lesson = JNull then Inl TypeError
     else
       case sanitize_id (js_or (js_get lesson (js ''id''))
                           (Some (JStr (js ''lesson-'' @ decimal lessonIdx)))) of
         Inl e \<Rightarrow> Inl e
       | Inr lessonId \<Rightarrow>
           (let safeLessonId = escapeHtml rt (Some (JStr lessonId)) in
            case questions_section rt lessonIdx lesson of
              Inl e \<Rightarrow> Inl e
            | Inr questionsHtml \<Rightarrow>
                (case coding_section rt lessonIdx lesson of
                   Inl e \<Rightarrow> Inl e
                 | Inr codingHtml \<Rightarrow>
                     Inr (js_lines [[],
                            ''        <div class=\"lesson-card\" data-lesson-id=\"''] @
                          safeLessonId @
                          js_lines [''\">'',
                            ''          <h2>''] @
                          escapeHtml rt (js_or (js_get lesson (js ''title'')) (Some (JStr (js ''Untitled Lesson'')))) @
                          js_lines [''</h2>'',
                            ''          <div class=\"lesson-content\" id=\"content-''] @
                          safeLessonId @
                          js_lines [''\"></div>''] @
                          questionsHtml @ codingHtml @
                          js_lines [[],
                            ''        </div>'']))))"

text \<open>
  \<^verbatim>\<open>
  const generateLessonsHTML = (lessons) => {
    if (!lessons || lessons.length === 0) return '';
    return lessons.map((lesson, lessonIdx) => { ... }).join('');
  };
  \<close>
\<close>

definition generateLessonsHTML :: "runtime \<Rightarrow> json option \<Rightarrow> js_error + jsstring" where
  "generateLessonsHTML rt lessons =
     (if \<not> truthy lessons \<or> js_get_opt lessons (js ''length'') = Some (JNum 0) then Inr []
      else
        case as_array lessons of
          Inl e \<Rightarrow> Inl e
        | Inr ls \<Rightarrow>
            (case collect (map (lesson_html rt) (indexed ls)) of
               Inl e \<Rightarrow> Inl e
             | Inr htmls \<Rightarrow> Inr (concat htmls)))"

text \<open>
  \<open>JSON.stringify(value, null, 2)\<close>. A string is quoted with the two-character escapes
  for backspace, tab, line feed, form feed, carriage return, quote and backslash; other
  code units below U+0020 and unpaired surrogates are written as \<open>\uXXXX\<close>; everything
  else, so also \<open><\<close>, \<open>>\<close> and \<open>/\<close>, is copied.
\<close>

definition hex_digit :: "nat \<Rightarrow> nat" where
  "hex_digit d = (if d < 10 then 48 + d else 87 + d)"

definition unicode_escape :: "nat \<Rightarrow> jsstring" where
  "unicode_escape c =
     [BACKSLASH, 117, hex_digit (c div 4096 mod 16), hex_digit (c div 256 mod 16),
      hex_digit (c div 16 mod 16), hex_digit (c mod 16)]"

definition quote_unit :: "nat \<Rightarrow> jsstring" where
  "quote_unit c =
     (if c = 8 then [BACKSLASH, 98]
      else if c = 9 then [BACKSLASH, 116]
      else if c = 10 then [BACKSLASH, 110]
      else if c = 12 then [BACKSLASH, 102]
      else if c = 13 then [BACKSLASH, 114]
      else if c = QUOTE then [BACKSLASH, QUOTE]
      else if c = BACKSLASH then [BACKSLASH, BACKSLASH]
      else if c < 32 then unicode_escape c
      else [c])"

definition high_surrogate :: "nat \<Rightarrow> bool" where
  "high_surrogate c \<longleftrightarrow> 55296 \<le> c \<and> c \<le> 56319"

definition low_surrogate :: "nat \<Rightarrow> bool" where
  "low_surrogate c \<longleftrightarrow> 56320 \<le> c \<and> c \<le> 57343"

fun quote_units :: "jsstring \<Rightarrow> jsstring" where
  "quote_units [] = []"
| "quote_units [c] =
     (if high_surrogate c \<or> low_surrogate c then unicode_escape c else quote_unit c)"
| "quote_units (c # d # cs) =
     (if high_surrogate c then
        (if low_surrogate d then c # d # quote_units cs
         else unicode_escape c @ quote_units (d # cs))
      else if low_surrogate c then unicode_escape c @ quote_units (d # cs)
      else quote_unit c @ quote_units (d # cs))"

definition quote_json :: "jsstring \<Rightarrow> jsstring" where
  "quote_json s = QUOTE # quote_units s @ [QUOTE]"

fun stringify :: "runtime \<Rightarrow> jsstring \<Rightarrow> json \<Rightarrow> jsstring" where
  "stringify rt ind JNull = js ''null''"
| "stringify rt ind (JBool b) = (if b then js ''true'' else js ''false'')"
| "stringify rt ind (JNum x) = number_text rt x"
| "stringify rt ind (JStr s) = quote_json s"
| "stringify rt ind (JArr xs) =
     (if xs = [] then js ''[]''
      else [LBRACKET, NEWLINE] @ ind @ js ''  '' @
           join_with ([COMMA, NEWLINE] @ ind @ js ''  '')
             (map (\<lambda>v. stringify rt (ind @ js ''  '') v) xs) @
           [NEWLINE] @ ind @ [RBRACKET])"
| "stringify rt ind (JObj kvs) =
     (if kvs = [] then js ''{}''
      else [LBRACE, NEWLINE] @ ind @ js ''  '' @
           join_with ([COMMA, NEWLINE] @ ind @ js ''  '')
             (map (\<lambda>kv. quote_json (fst kv) @ js '': '' @ stringify rt (ind @ js ''  '') (snd kv)) kvs) @
           [NEWLINE] @ ind @ [RBRACE])"

definition JSON_stringify2 :: "runtime \<Rightarrow> json \<Rightarrow> jsstring" where
  "JSON_stringify2 rt v = stringify rt [] v"

text \<open>The fixed text of the page between its interpolations.\<close>

definition page_head :: jsstring where
  "page_head =
     js_lines [''<!DOCTYPE html>'',
       ''<html lang=\"en\">'',
       ''<head>'',
       ''    <meta charset=\"UTF-8\">'',
       ''    <meta name=\"viewport\" content=\"width=device-width, initial-scale=1.0\">'',
       ''    <title>'']"

definition page_title_end :: jsstring where
  "page_title_end =
     js_lines [''</title>'',
       ''    <script src=\"https://cdn.jsdelivr.net/npm/marked@11.1.1/marked.min.js\"></script>'',
       ''    <style>'',
       []]"

definition page_style :: jsstring where
  "page_style =
     js_lines [''        /* Reset and base styles */'',
       ''        * {'',
       ''            margin: 0;'',
       ''            padding: 0;'',
       ''            box-sizing: border-box;'',
       ''        }'',
       [],
       ''        body {'',
       ''            font-family: -apple-system, BlinkMacSystemFont, 'Segoe UI', 'Roboto', 'Oxygen','',
       ''                'Ubuntu', 'Cantarell', 'Fira Sans', 'Droid Sans', 'Helvetica Neue','',
       ''                sans-serif;'',
       ''            -webkit-font-smoothing: antialiased;'',
       ''            -moz-osx-font-smoothing: grayscale;'',
       ''            background: #f5f5f5;'',
       ''            color: #333;'',
       ''        }'',
       [],
       ''        code {'',
       ''            font-family: 'Courier New', monospace;'',
       ''        }'',
       [],
       ''        /* Course viewer styles */'',
       ''        .course-viewer {'',
       ''            max-width: 1000px;'',
       ''            margin: 0 auto;'',
       ''            padding: 40px 20px;'',
       ''        }'',
       [],
       ''        .course-header {'',
       ''            background: white;'',
       ''            padding: 32px;'',
       ''            border-radius: 8px;'',
       ''            box-shadow: 0 2px 8px rgba(0, 0, 0, 0.1);'',
       ''            margin-bottom: 24px;'',
       ''        }'',
       [],
       ''        .course-header h1 {'',
       ''            font-size: 32px;'',
       ''            margin-bottom: 12px;'',
       ''            color: #333;'',
       ''        }'',
       [],
       ''        .course-description {'',
       ''            color: #666;'',
       ''            font-size: 16px;'',
       ''            line-height: 1.6;'',
       ''        }'',
       [],
       ''        .lessons {'',
       ''            display: flex;'',
       ''            flex-direction: column;'',
       ''            gap: 24px;'',
       ''        }'',
       [],
       ''        .lesson-card {'',
       ''            background: white;'',
       ''            padding: 32px;'',
       ''            border-radius: 8px;'',
       ''            box-shadow: 0 2px 8px rgba(0, 0, 0, 0.1);'',
       ''        }'',
       [],
       ''        .lesson-card h2 {'',
       ''            font-size: 24px;'',
       ''            margin-bottom: 16px;'',
       ''            color: #333;'',
       ''            border-bottom: 2px solid #2196F3;'',
       ''            padding-bottom: 8px;'',
       ''        }'',
       [],
       ''        .lesson-content {'',
       ''            line-height: 1.8;'',
       ''            color: #444;'',
       ''            margin-bottom: 32px;'',
       ''        }'',
       [],
       ''        .lesson-content h1,'',
       ''        .lesson-content h2,'',
       ''        .lesson-content h3 {'',
       ''            margin-top: 24px;'',
       ''            margin-bottom: 12px;'',
       ''            color: #333;'',
       ''        }'',
       [],
       ''        .lesson-content code {'',
       ''            background: #f5f5f5;'',
       ''            padding: 2px 6px;'',
       ''            border-radius: 3px;'',
       ''            font-family: 'Courier New', monospace;'',
       ''            font-size: 0.9em;'',
       ''        }'',
       [],
       ''        .lesson-content pre {'',
       ''            background: #f5f5f5;'',
       ''            padding: 16px;'',
       ''            border-radius: 6px;'',
       ''            overflow-x: auto;'',
       ''            margin: 16px 0;'',
       ''        }'',
       [],
       ''        .lesson-content pre code {'',
       ''            background: none;'',
       ''            padding: 0;'',
       ''        }'',
       [],
       ''        .questions-section,'',
       ''        .coding-section {'',
       ''            margin-top: 32px;'',
       ''            padding-top: 32px;'',
       ''            border-top: 1px solid #eee;'',
       ''        }'',
       [],
       ''        .questions-section h3,'',
       ''        .coding-section h3 {'',
       ''            font-size: 20px;'',
       ''            margin-bottom: 20px;'',
       ''            color: #333;'',
       ''        }'',
       [],
       ''        .question {'',
       ''            margin-bottom: 32px;'',
       ''            padding: 20px;'',
       ''            background: #f9f9f9;'',
       ''            border-radius: 8px;'',
       ''        }'',
       [],
       ''        .question h4 {'',
       ''            font-size: 16px;'',
       ''            margin-bottom: 16px;'',
       ''            color: #333;'',
       ''        }'',
       [],
       ''        .options {'',
       ''            display: flex;'',
       ''            flex-direction: column;'',
       ''            gap: 12px;'',
       ''            margin-bottom: 16px;'',
       ''        }'',
       [],
       ''        .option {'',
       ''            padding: 14px 16px;'',
       ''            background: white;'',
       ''            border: 2px solid #e0e0e0;'',
       ''            border-radius: 6px;'',
       ''            cursor: pointer;'',
       ''            transition: all 0.2s;'',
       ''            font-size: 14px;'',
       ''        }'',
       [],
       ''        .option:hover {'',
       ''            border-color: #2196F3;'',
       ''            background: #f5f5f5;'',
       ''        }'',
       [],
       ''        .option.selected {'',
       ''            border-color: #2196F3;'',
       ''            background: #e3f2fd;'',
       ''        }'',
       [],
       ''        .option.correct {'',
       ''            border-color: #4CAF50;'',
       ''            background: #e8f5e9;'',
       ''        }'',
       [],
       ''        .option.incorrect {'',
       ''            border-color: #f44336;'',
       ''            background: #ffebee;'',
       ''        }'',
       [],
       ''        .check-btn {'',
       ''            padding: 10px 20px;'',
       ''            background: #2196F3;'',
       ''            color: white;'',
       ''            border: none;'',
       ''            border-radius: 6px;'',
       ''            cursor: pointer;'',
       ''            font-size: 14px;'',
       ''            margin-top: 8px;'',
       ''        }'',
       [],
       ''        .check-btn:hover {'',
       ''            background: #1976D2;'',
       ''        }'',
       [],
       ''        .explanation {'',
       ''            margin-top: 16px;'',
       ''            padding: 16px;'',
       ''            background: #e3f2fd;'',
       ''            border-radius: 6px;'',
       ''            border-left: 4px solid #2196F3;'',
       ''        }'',
       [],
       ''        .explanation strong {'',
       ''            color: #1976D2;'',
       ''        }'',
       [],
       ''        .coding-exercise {'',
       ''            margin-bottom: 32px;'',
       ''            padding: 20px;'',
       ''            background: #f9f9f9;'',
       ''            border-radius: 8px;'',
       ''        }'',
       [],
       ''        .coding-exercise h4 {'',
       ''            font-size: 18px;'',
       ''            margin-bottom: 12px;'',
       ''            color: #333;'',
       ''        }'',
       [],
       ''        .coding-exercise p {'',
       ''            color: #666;'',
       ''            margin-bottom: 16px;'',
       ''            line-height: 1.6;'',
       ''        }'',
       [],
       ''        .test-cases {'',
       ''            margin-bottom: 16px;'',
       ''            padding: 12px;'',
       ''            background: white;'',
       ''            border-radius: 6px;'',
       ''        }'',
       [],
       ''        .test-cases strong {'',
       ''            display: block;'',
       ''            margin-bottom: 8px;'',
       ''            color: #333;'',
       ''        }'',
       [],
       ''        .test-cases ul {'',
       ''            list-style: none;'',
       ''            margin-left: 0;'',
       ''        }'',
       [],
       ''        .test-cases li {'',
       ''            padding: 6px 0;'',
       ''            color: #666;'',
       ''            font-size: 14px;'',
       ''        }'',
       [],
       ''        .test-cases code {'',
       ''            background: #f5f5f5;'',
       ''            padding: 2px 6px;'',
       ''            border-radius: 3px;'',
       ''            font-family: 'Courier New', monospace;'',
       ''        }'',
       [],
       ''        .editor-container {'',
       ''            margin: 16px 0;'',
       ''            border: 1px solid #ddd;'',
       ''            border-radius: 6px;'',
       ''            overflow: hidden;'',
       ''        }'',
       [],
       ''        .code-textarea {'',
       ''            width: 100%;'',
       ''            height: 400px;'',
       ''            font-family: 'Courier New', monospace;'',
       ''            font-size: 14px;'',
       ''            padding: 12px;'',
       ''            border: none;'',
       ''            background: #1e1e1e;'',
       ''            color: #d4d4d4;'',
       ''            resize: none;'',
       ''            outline: none;'',
       ''            tab-size: 2;'',
       ''        }'',
       [],
       ''        .solution-btn {'',
       ''            padding: 10px 20px;'',
       ''            background: #4CAF50;'',
       ''            color: white;'',
       ''            border: none;'',
       ''            border-radius: 6px;'',
       ''            cursor: pointer;'',
       ''            font-size: 14px;'',
       ''            margin-top: 12px;'',
       ''        }'',
       [],
       ''        .solution-btn:hover {'',
       ''            background: #45a049;'',
       ''        }'',
       [],
       ''        .solution {'',
       ''            margin-top: 16px;'',
       ''            padding: 16px;'',
       ''            background: white;'',
       ''            border-radius: 6px;'',
       ''            border-left: 4px solid #4CAF50;'',
       ''        }'',
       [],
       ''        .solution strong {'',
       ''            display: block;'',
       ''            margin-bottom: 8px;'',
       ''            color: #333;'',
       ''        }'',
       [],
       ''        .solution pre {'',
       ''            background: #f5f5f5;'',
       ''            padding: 12px;'',
       ''            border-radius: 4px;'',
       ''            overflow-x: auto;'',
       ''            margin-top: 8px;'',
       ''        }'',
       [],
       ''        .solution code {'',
       ''            font-family: 'Courier New', monospace;'',
       ''            font-size: 14px;'',
       ''        }'',
       ''    </style>'',
       ''</head>'',
       ''<body>'',
       ''    <div class=\"course-viewer\">'',
       ''        <div class=\"course-header\">'',
       ''            <h1>'']"

definition page_after_title :: jsstring where
  "page_after_title =
     js_lines [''</h1>'',
       ''            <p class=\"course-description\">'']"

definition page_before_lessons :: jsstring where
  "page_before_lessons =
     js_lines [''</p>'',
       ''        </div>'',
       [],
       ''        <div class=\"lessons\">'',
       ''            '']"

definition page_before_data :: jsstring where
  "page_before_data =
     js_lines [[],
       ''        </div>'',
       ''    </div>'',
       [],
       ''    <script>'',
       ''        // Course data'',
       ''        const courseData = '']"

text \<open>The lines of the inline script after the data literal.\<close>

definition page_script_lines :: "string list" where
  "page_script_lines =
     ['';'',
      [],
      ''        // State management'',
      ''        const state = {'',
      ''            selectedAnswers: {},'',
      ''            showExplanations: {},'',
      ''            codeSolutions: {}'',
      ''        };'',
      [],
      ''        // Escape HTML helper'',
      ''        function escapeHtml(text) {'',
      (''            if (text == null) return '' @ [CHR 0x27] @ [CHR 0x27] @ '';''),
      ''            const div = document.createElement('div');'',
      ''            div.textContent = text;'',
      ''            return div.innerHTML;'',
      ''        }'',
      [],
      ''        // Sanitize ID helper (same logic as server-side)'',
      ''        function sanitizeId(id) {'',
      (''            return String(id || '' @ [CHR 0x27] @ [CHR 0x27] @ '').replace(/[^a-zA-Z0-9-_]/g, '-');''),
      ''        }'',
      [],
      ''        // Initialize markdown content'',
      ''        function initializeMarkdown() {'',
      ''            courseData.lessons.forEach((lesson, lessonIdx) => {'',
      ''                const lessonId = sanitizeId(lesson.id || `lesson-${lessonIdx}`);'',
      ''                const contentElement = document.getElementById('content-' + lessonId);'',
      ''                if (contentElement && lesson.content) {'',
      ''                    if (typeof marked !== 'undefined' && marked.parse) {'',
      ''                        contentElement.innerHTML = marked.parse(lesson.content);'',
      ''                    } else {'',
      ''                        // Fallback if marked.js fails to load'',
      ''                        contentElement.textContent = lesson.content;'',
      ''                    }'',
      ''                }'',
      ''            });'',
      ''        }'',
      [],
      ''        // Handle answer selection'',
      ''        function handleAnswerSelect(questionId, answerIndex) {'',
      ''            state.selectedAnswers[questionId] = answerIndex;'',
      ''            '',
      ''            // Update UI'',
      ''            const questionElement = document.querySelector('[data-question-id=\"' + questionId + '\"]');'',
      ''            if (!questionElement) return;'',
      ''            '',
      ''            // Remove selected class from all options'',
      ''            questionElement.querySelectorAll('.option').forEach(opt => {'',
      ''                opt.classList.remove('selected');'',
      ''            });'',
      ''            '',
      ''            // Add selected class to chosen option'',
      ''            const selectedOption = questionElement.querySelector('[data-option-index=\"' + answerIndex + '\"]');'',
      ''            if (selectedOption) {'',
      ''                selectedOption.classList.add('selected');'',
      ''            }'',
      ''            '',
      ''            // Show check button'',
      ''            const checkBtn = document.getElementById('check-btn-' + questionId);'',
      ''            if (checkBtn) {'',
      ''                checkBtn.style.display = 'block';'',
      ''            }'',
      ''        }'',
      [],
      ''        // Check answer'',
      ''        function checkAnswer(questionId, correctAnswer) {'',
      ''            state.showExplanations[questionId] = true;'',
      ''            '',
      ''            const questionElement = document.querySelector('[data-question-id=\"' + questionId + '\"]');'',
      ''            if (!questionElement) return;'',
      ''            '',
      ''            // Mark correct/incorrect answers'',
      ''            questionElement.querySelectorAll('.option').forEach((opt, idx) => {'',
      ''                opt.classList.remove('correct', 'incorrect');'',
      ''                if (idx === correctAnswer) {'',
      ''                    opt.classList.add('correct');'',
      ''                } else if (state.selectedAnswers[questionId] === idx) {'',
      ''                    opt.classList.add('incorrect');'',
      ''                }'',
      ''            });'',
      ''            '',
      ''            // Show explanation'',
      ''            const explanation = document.getElementById('explanation-' + questionId);'',
      ''            if (explanation) {'',
      ''                explanation.style.display = 'block';'',
      ''            }'',
      ''        }'',
      [],
      ''        // Toggle code solution'',
      ''        function toggleCodeSolution(exerciseId) {'',
      ''            state.codeSolutions[exerciseId] = !state.codeSolutions[exerciseId];'',
      ''            '',
      ''            const solution = document.getElementById('solution-' + exerciseId);'',
      ''            const button = event.target;'',
      ''            '',
      ''            if (solution) {'',
      ''                solution.style.display = state.codeSolutions[exerciseId] ? 'block' : 'none';'',
      ''            }'',
      ''            '',
      ''            if (button) {'',
      ''                button.textContent = state.codeSolutions[exerciseId] ? 'Hide Solution' : 'Show Solution';'',
      ''            }'',
      ''        }'',
      [],
      ''        // Initialize when DOM is ready'',
      ''        if (document.readyState === 'loading') {'',
      ''            document.addEventListener('DOMContentLoaded', initializeMarkdown);'',
      ''        } else {'',
      ''            initializeMarkdown();'',
      ''        }'',
      ''    </script>'',
      ''</body>'',
      ''</html>'']"

definition page_script :: jsstring where
  "page_script = js_lines page_script_lines"

text \<open>
  \<^verbatim>\<open>
  return `<!DOCTYPE html> ... <title>${course.title || 'Course'}</title>
      <script src="https://cdn.jsdelivr.net/npm/marked@11.1.1/marked.min.js"></script>
      <style> ... </style> ...
      <h1>${escapeHtml(course.title || 'Course')}</h1>
      <p class="course-description">${escapeHtml(course.description || '')}</p> ...
      <div class="lessons">${generateLessonsHTML(course.lessons || [])}</div> ...
      <script> const courseData = ${JSON.stringify(course, null, 2)}; ... </script> ...`;
  \<close>
\<close>

definition generateStandaloneApp :: "runtime \<Rightarrow> json \<Rightarrow> js_error + jsstring" where
  "generateStandaloneApp rt course =
     (if course = JNull then Inl TypeError
      else
        case generateLessonsHTML rt (js_or (js_get course (js ''lessons'')) (Some (JArr []))) of
          Inl e \<Rightarrow> Inl e
        | Inr lessonsHtml \<Rightarrow>
            Inr (page_head @
                 interpolate rt (js_or (js_get course (js ''title'')) (Some (JStr (js ''Course'')))) @
                 page_title_end @ page_style @
                 escapeHtml rt (js_or (js_get course (js ''title'')) (Some (JStr (js ''Course'')))) @
                 page_after_title @
                 escapeHtml rt (js_or (js_get course (js ''description'')) (Some (JStr []))) @
                 page_before_lessons @
                 lessonsHtml @
                 page_before_data @
                 JSON_stringify2 rt course @
                 page_script))"


text \<open>Whether a rendering succeeded with a page that contains the given text.\<close>

definition page_includes :: "js_error + jsstring \<Rightarrow> jsstring \<Rightarrow> bool" where
  "page_includes res pat = (case res of Inl e \<Rightarrow> False | Inr html \<Rightarrow> str_includes html pat)"


text \<open>A runtime, and the course of the scenario: one lesson whose content is a script tag.\<close>

definition ex_runtime :: runtime where
  "ex_runtime = \<lparr>fraction_text = (\<lambda>x. []), string_positive = (\<lambda>s. False),
                  clock = 1733443200123, random = (\<lambda>n. n)\<rparr>"

definition ex_course :: json where
  "ex_course =
     JObj [(js ''title'', JStr (js ''T'')),
           (js ''lessons'',
            JArr [JObj [(js ''id'', JStr (js ''l1'')),
                        (js ''content'', JStr (js ''<script>alert(1)</script>''))]])]"

definition ex_course_title :: json where
  "ex_course_title = JObj [(js ''title'', JStr (js ''</title><script>alert(1)</script>''))]"

text \<open>The page that the course of the scenario is rendered to.\<close>

definition ex_html :: jsstring where
  "ex_html =
     page_head @ js ''T'' @ page_title_end @ page_style @ js ''T'' @ page_after_title @
     page_before_lessons @
     js_lines [[],
               ''        <div class=\"lesson-card\" data-lesson-id=\"l1\">'',
               ''          <h2>Untitled Lesson</h2>'',
               ''          <div class=\"lesson-content\" id=\"content-l1\"></div>'',
               ''        </div>''] @
     page_before_data @ JSON_stringify2 ex_runtime ex_course @ page_script"

section \<open>The export endpoint: \<open>GET /api/export/:courseId\<close> (server)\<close>

text \<open>
  The part of the file system the handler touches: the directories that exist and the
  files with their contents. An archive holds entries, each a name and a text.
\<close>

datatype file_content = Text jsstring | Zip "(jsstring \<times> jsstring) list"

record file_system =
  dirs :: "jsstring list"
  files :: "(jsstring \<times> file_content) list"

definition write_file :: "jsstring \<Rightarrow> file_content \<Rightarrow> file_system \<Rightarrow> file_system" where
  "write_file p c fs = fs\<lparr>files := (p, c) # filter (\<lambda>(q, x). q \<noteq> p) (files fs)\<rparr>"

definition unlink :: "jsstring \<Rightarrow> file_system \<Rightarrow> file_system" where
  "unlink p fs = fs\<lparr>files := filter (\<lambda>(q, x). q \<noteq> p) (files fs)\<rparr>"

definition mkdir :: "jsstring \<Rightarrow> file_system \<Rightarrow> file_system" where
  "mkdir d fs = (if d \<in> set (dirs fs) then fs else fs\<lparr>dirs := d # dirs fs\<rparr>)"

text \<open>\<open>archive.directory(dir, false)\<close>: the text files below \<open>dir\<close>, named relative to it.\<close>

definition directory_entries :: "jsstring \<Rightarrow> file_system \<Rightarrow> (jsstring \<times> jsstring) list" where
  "directory_entries d fs =
     concat (map (\<lambda>(p, c). case c of
                     Text t \<Rightarrow> if prefix (d @ js ''/'') p then [(drop (Suc (length d)) p, t)] else []
                   | Zip es \<Rightarrow> [])
                 (files fs))"

text \<open>\<open>s.replace(/\s+/g, '-')\<close>: every maximal run of whitespace becomes one hyphen.\<close>

fun hyphenate_from :: "bool \<Rightarrow> jsstring \<Rightarrow> jsstring" where
  "hyphenate_from in_run [] = []"
| "hyphenate_from in_run (c # cs) =
     (if is_space c then (if in_run then hyphenate_from True cs else 45 # hyphenate_from True cs)
      else c # hyphenate_from False cs)"

definition hyphenate :: "jsstring \<Rightarrow> jsstring" where
  "hyphenate s = hyphenate_from False s"

text \<open>
  What may go wrong in one request: Supabase is not configured, the query fails, the
  directory cannot be made, the page cannot be written, the download fails, or the
  archive cannot be unlinked.
\<close>

datatype export_fault =
    NoFault | NotConfigured | QueryError | MkdirError | WriteError | DownloadError | UnlinkError

text \<open>
  The response: a status with a JSON body, the download of an archive under a file name,
  or none (the promise the handler returns is rejected, or the callback throws, after
  the \<open>try\<close> block has been left).
\<close>

datatype response =
    Status404
  | Status500 js_error
  | Download jsstring "(jsstring \<times> jsstring) list"
  | NoResponse

text \<open>
  \<^verbatim>\<open>
  checkSupabase();
  const { data, error } = await supabase.from('courses').select('course_data')
      .eq('id', courseId).single();
  if (error || !data) return res.status(404).json({ error: 'Course not found' });
  const course = data.course_data;
  const exportDir = path.join(__dirname, 'exports', courseId);
  await fs.mkdir(exportDir, { recursive: true });
  const standaloneHTML = await generateStandaloneApp(course);
  await fs.writeFile(path.join(exportDir, 'index.html'), standaloneHTML);
  const zipPath = path.join(__dirname, 'exports', `${courseId}.zip`);
  const output = createWriteStream(zipPath);
  const archive = archiver('zip', { zlib: { level: 9 } });
  return new Promise((resolve, reject) => {
    archive.pipe(output); archive.directory(exportDir, false); archive.finalize();
    output.on('close', () => {
      res.download(zipPath, `${course.title.replace(/\s+/g, '-')}.zip`, (err) => {
        if (err) { reject(err); }
        else { fs.unlink(zipPath).catch(console.error); resolve(); }
      });
    });
    archive.on('error', reject);
  });
  ... catch (error) { res.status(500).json({ error: error.message }); }
  \<close>
  \<open>single()\<close> yields the row when exactly one matches. The course id is taken to be one
  plain path segment, so that \<open>path.join\<close> is concatenation with \<open>/\<close>. The result is the
  response and the file system once the request is over.
\<close>

definition export_course ::
  "runtime \<Rightarrow> jsstring \<Rightarrow> export_fault \<Rightarrow> course_row list \<Rightarrow> file_system \<Rightarrow> jsstring
     \<Rightarrow> response \<times> file_system" where
  "export_course rt dirname fault table fs courseId =
     (if fault = NotConfigured then (Status500 (Error (js ''Supabase is not configured'')), fs)
      else
        case (if fault = QueryError then [] else filter (\<lambda>r. row_id r = courseId) table) of
          [row] \<Rightarrow>
            (let course = course_data row;
                 exportDir = dirname @ js ''/exports/'' @ courseId;
                 zipPath = dirname @ js ''/exports/'' @ courseId @ js ''.zip''
             in if fault = MkdirError then (Status500 (Error (js ''mkdir'')), fs)
                else
                  (let fs1 = mkdir exportDir fs in
                   case generateStandaloneApp rt course of
                     Inl e \<Rightarrow> (Status500 e, fs1)
                   | Inr standaloneHTML \<Rightarrow>
                       if fault = WriteError then (Status500 (Error (js ''writeFile'')), fs1)
                       else
                         (let fs2 = write_file (exportDir @ js ''/index.html'') (Text standaloneHTML) fs1;
                              entries = directory_entries exportDir fs2;
                              fs3 = write_file zipPath (Zip entries) fs2
                          in case js_get course (js ''title'') of
                               Some (JStr title) \<Rightarrow>
                                 if fault = DownloadError then (NoResponse, fs3)
                                 else (Download (hyphenate title @ js ''.zip'') entries,
                                       if fault = UnlinkError then fs3 else unlink zipPath fs3)
                             | _ \<Rightarrow> (NoResponse, fs3))))
        | _ \<Rightarrow> (Status404, fs))"

definition ex_dirname :: jsstring where
  "ex_dirname = js ''/app/server''"

definition ex_store :: "course_row list" where
  "ex_store =
     [\<lparr>row_id = js ''course-7'', row_title = Some (JStr (js ''T'')), row_description = None,
       created_at = 1733443200000, updated_at = 1733443200000, course_data = ex_course\<rparr>]"

definition ex_fs :: file_system where
  "ex_fs = \<lparr>dirs = [js ''/app/server/exports''], files = []\<rparr>"

definition is_download :: "response \<Rightarrow> bool" where
  "is_download r = (case r of Download name entries \<Rightarrow> True | _ \<Rightarrow> False)"

text \<open>The file system after the course of the scenario has been exported from \<open>ex_fs\<close>.\<close>

definition ex_fs_after :: file_system where
  "ex_fs_after =
     \<lparr>dirs = [js ''/app/server/exports/course-7'', js ''/app/server/exports''],
      files = [(js ''/app/server/exports/course-7/index.html'', Text ex_html)]\<rparr>"

text \<open>A table with one course created before the cutoff and two created after it.\<close>

definition ex_table :: "course_row list" where
  "ex_table =
     [\<lparr>row_id = js ''course-1'', row_title = Some (JStr (js ''Old'')), row_description = None,
       created_at = 1733000000000, updated_at = 1733000000000,
       course_data = JObj [(js ''lessons'', JArr [JNull, JNull])]\<rparr>,
      \<lparr>row_id = js ''course-2'', row_title = Some (JStr (js ''A'')), row_description = None,
       created_at = 1733443200000, updated_at = 1733443200000,
       course_data = JObj [(js ''lessons'', JArr [JNull])]\<rparr>,
      \<lparr>row_id = js ''course-3'', row_title = Some (JStr (js ''B'')), row_description = None,
       created_at = 1733443200500, updated_at = 1733443200500,
       course_data = JObj [(js ''title'', JStr (js ''B''))]\<rparr>]"

section \<open>The course editor: \<open>removeQuestionOption\<close> (client, AdminViewer.jsx)\<close>

text \<open>
  The editor's working copy of a course. Only the fields that \<open>removeQuestionOption\<close>
  reads or writes take part in the claim; the others are carried along unchanged.
\<close>

record question =
  q_id :: jsstring
  q_question :: jsstring
  options :: "jsstring list"
  correctAnswer :: int
  explanation :: jsstring

record lesson =
  l_id :: jsstring
  l_title :: jsstring
  l_content :: jsstring
  questions :: "question list"

record course =
  c_title :: jsstring
  c_description :: jsstring
  lessons :: "lesson list"

text \<open>
  \<open>Array.prototype.splice(start, 1)\<close>: a negative \<open>start\<close> counts from the end, a
  \<open>start\<close> beyond the end removes nothing.
\<close>

definition splice1 :: "int \<Rightarrow> 'a list \<Rightarrow> 'a list" where
  "splice1 start xs =
     (let len = int (length xs);
          actualStart = (if start < 0 then max (len + start) 0 else min start len);
          deleteCount = min 1 (len - actualStart)
      in take (nat actualStart) xs @ drop (nat (actualStart + deleteCount)) xs)"

text \<open>
  The body of the state updater on one question:
  \<^verbatim>\<open>
  const options = [...question.options]
  if (options.length > 1) {
    options.splice(optionIndex, 1)
    question.options = options
    const correctAnswer = question.correctAnswer
    if (correctAnswer >= options.length) {
      question.correctAnswer = options.length - 1
    }
  }
  \<close>
\<close>

definition removeOption :: "int \<Rightarrow> question \<Rightarrow> question" where
  "removeOption optionIndex q =
     (if length (options q) > 1 then
        (let opts = splice1 optionIndex (options q);
             q1 = q\<lparr>options := opts\<rparr>
         in if correctAnswer q1 \<ge> int (length opts)
            then q1\<lparr>correctAnswer := int (length opts) - 1\<rparr>
            else q1)
      else q)"

text \<open>
  \<open>removeQuestionOption(lessonIndex, questionIndex, optionIndex)\<close> on the whole working
  copy. \<open>updated.lessons[lessonIndex]\<close> is \<open>undefined\<close> out of range, and reading
  \<open>.questions\<close> (or \<open>.options\<close>) of \<open>undefined\<close> throws a TypeError.
\<close>

definition removeQuestionOption :: "course \<Rightarrow> nat \<Rightarrow> nat \<Rightarrow> int \<Rightarrow> js_error + course" where
  "removeQuestionOption prev lessonIndex questionIndex optionIndex =
     (if lessonIndex \<ge> length (lessons prev) then Inl TypeError
      else let l = lessons prev ! lessonIndex in
        if questionIndex \<ge> length (questions l) then Inl TypeError
        else let q = removeOption optionIndex (questions l ! questionIndex);
                 l1 = l\<lparr>questions := (questions l)[questionIndex := q]\<rparr>
             in Inr (prev\<lparr>lessons := (lessons prev)[lessonIndex := l1]\<rparr>))"

text \<open>A working copy with one lesson and one two-option question whose answer is the second option.\<close>

definition ex_question :: question where
  "ex_question = \<lparr>q_id = js ''q1'', q_question = js ''Q'', options = [js ''a'', js ''b''],
                    correctAnswer = 1, explanation = js ''e''\<rparr>"

definition ex_edited :: course where
  "ex_edited = \<lparr>c_title = js ''T'', c_description = [],
     lessons = [\<lparr>l_id = js ''l1'', l_title = [], l_content = [], questions = [ex_question]\<rparr>]\<rparr>"

section \<open>Auxiliary notions for the extractor proofs\<close>

text \<open>
  \<open>passes u\<close>: the brace scan, outside a string and at a positive depth, runs through \<open>u\<close>
  and leaves it in the same state. \<open>str_passes\<close> is the same inside a string.
  \<open>clean u\<close>: \<open>u\<close> does not start with a backtick and has no line feed directly followed
  by one, so no closing fence can start inside it.
\<close>

definition plain :: "nat \<Rightarrow> bool" where
  "plain c \<longleftrightarrow> c \<noteq> BACKSLASH \<and> c \<noteq> QUOTE \<and> c \<noteq> LBRACE \<and> c \<noteq> RBRACE \<and> c \<noteq> BACKTICK"

definition passes :: "jsstring \<Rightarrow> bool" where
  "passes u \<longleftrightarrow> (\<forall>tail i bc je. 0 < bc \<longrightarrow>
      brace_scan (u @ tail) i bc je False False = brace_scan tail (i + length u) bc je False False)"

definition str_passes :: "jsstring \<Rightarrow> bool" where
  "str_passes u \<longleftrightarrow> (\<forall>tail i bc je.
      brace_scan (u @ tail) i bc je True False = brace_scan tail (i + length u) bc je True False)"

fun nl_tick_free :: "jsstring \<Rightarrow> bool" where
  "nl_tick_free [] = True"
| "nl_tick_free [c] = True"
| "nl_tick_free (c # d # cs) = (\<not> (c = NEWLINE \<and> d = BACKTICK) \<and> nl_tick_free (d # cs))"

definition clean :: "jsstring \<Rightarrow> bool" where
  "clean u \<longleftrightarrow> nl_tick_free u \<and> (u \<noteq> [] \<longrightarrow> hd u \<noteq> BACKTICK)"

definition ok :: "jsstring \<Rightarrow> bool" where
  "ok u \<longleftrightarrow> passes u \<and> clean u"

definition obj_shape :: "json \<Rightarrow> jsstring \<Rightarrow> bool" where
  "obj_shape v u \<longleftrightarrow> (\<forall>kvs. v = JObj kvs \<longrightarrow> (\<exists>w. u = LBRACE # w @ [RBRACE] \<and> ok w))"

section \<open>Theorems\<close>

subsection \<open>The course editor\<close>

lemma length_splice1:
  "length (splice1 i xs) = (if - int (length xs) \<le> i \<and> i < int (length xs) then length xs - 1
                            else if i < 0 \<and> xs \<noteq> [] then length xs - 1 else length xs)"
  by (auto simp: splice1_def Let_def min_def max_def)

lemma length_splice1_ge: "length xs - 1 \<le> length (splice1 i xs)"
  by (simp add: length_splice1)

lemma splice1_in_range:
  "0 \<le> i \<Longrightarrow> i < int (length xs) \<Longrightarrow> splice1 i xs = take (nat i) xs @ drop (Suc (nat i)) xs"
  by (auto simp: splice1_def Let_def min_def max_def nat_add_distrib)

lemma removeOption_invariant:
  assumes "0 \<le> correctAnswer q" and "correctAnswer q < int (length (options q))"
  shows "0 \<le> correctAnswer (removeOption i q) \<and>
         correctAnswer (removeOption i q) < int (length (options (removeOption i q)))"
proof (cases "length (options q) > 1")
  case False
  with assms show ?thesis by (simp add: removeOption_def)
next
  case True
  have "length (options q) - 1 \<le> length (splice1 i (options q))"
    by (rule length_splice1_ge)
  with True have "1 \<le> length (splice1 i (options q))" by linarith
  with True assms show ?thesis
    by (auto simp: removeOption_def Let_def)
qed

lemma removeOption_clamp:
  "correctAnswer (removeOption i q) =
     (if 1 < length (options q) \<and> int (length (options (removeOption i q))) \<le> correctAnswer q
      then int (length (options (removeOption i q))) - 1 else correctAnswer q)"
  by (auto simp: removeOption_def Let_def)

text \<open>
  Claim C9. For a question with \<open>0 \<le> correctAnswer < options.length\<close>, addressed by
  valid lesson and question indices, \<open>removeQuestionOption\<close> returns a course in which
  that question again satisfies \<open>0 \<le> correctAnswer < options.length\<close>, for every
  \<open>optionIndex\<close>. Its \<open>correctAnswer\<close> is \<open>options.length - 1\<close> of the new options when
  the old value would point past their end, and is unchanged otherwise; an
  \<open>optionIndex\<close> inside a list of more than one option removes exactly that option.
\<close>

theorem removeQuestionOption_keeps_invariant:
  assumes "li < length (lessons c)"
    and "qi < length (questions (lessons c ! li))"
    and "q = questions (lessons c ! li) ! qi"
    and "0 \<le> correctAnswer q"
    and "correctAnswer q < int (length (options q))"
  shows "\<exists>c' q'. removeQuestionOption c li qi oi = Inr c' \<and>
           q' = questions (lessons c' ! li) ! qi \<and>
           0 \<le> correctAnswer q' \<and> correctAnswer q' < int (length (options q')) \<and>
           correctAnswer q' =
             (if 1 < length (options q) \<and> int (length (options q')) \<le> correctAnswer q
              then int (length (options q')) - 1 else correctAnswer q) \<and>
           (1 < length (options q) \<and> 0 \<le> oi \<and> oi < int (length (options q)) \<longrightarrow>
              options q' = take (nat oi) (options q) @ drop (Suc (nat oi)) (options q))"
proof -
  define l1 where "l1 = (lessons c ! li)\<lparr>questions := (questions (lessons c ! li))[qi := removeOption oi q]\<rparr>"
  define c' where "c' = c\<lparr>lessons := (lessons c)[li := l1]\<rparr>"
  have r: "removeQuestionOption c li qi oi = Inr c'"
    using assms(1,2,3) by (simp add: removeQuestionOption_def Let_def c'_def l1_def)
  have "lessons c' ! li = l1"
    using assms(1) by (simp add: c'_def)
  moreover have "questions l1 ! qi = removeOption oi q"
    using assms(2) by (simp add: l1_def)
  ultimately have q': "removeOption oi q = questions (lessons c' ! li) ! qi"
    by simp
  have inv: "0 \<le> correctAnswer (removeOption oi q) \<and>
             correctAnswer (removeOption oi q) < int (length (options (removeOption oi q)))"
    using assms(4,5) by (rule removeOption_invariant)
  have cl: "correctAnswer (removeOption oi q) =
     (if 1 < length (options q) \<and> int (length (options (removeOption oi q))) \<le> correctAnswer q
      then int (length (options (removeOption oi q))) - 1 else correctAnswer q)"
    by (rule removeOption_clamp)
  have rm: "1 < length (options q) \<and> 0 \<le> oi \<and> oi < int (length (options q)) \<longrightarrow>
       options (removeOption oi q) = take (nat oi) (options q) @ drop (Suc (nat oi)) (options q)"
    by (auto simp: removeOption_def Let_def splice1_in_range)
  from r q' inv cl rm show ?thesis
    by (intro exI[of _ c'] exI[of _ "removeOption oi q"] conjI) (assumption | erule conjunct1 | erule conjunct2)+
qed

theorem removeQuestionOption_keeps_invariant_witness:
  "0 < length (lessons ex_edited) \<and> 0 < length (questions (lessons ex_edited ! 0)) \<and>
   0 \<le> correctAnswer ex_question \<and> correctAnswer ex_question < int (length (options ex_question)) \<and>
   removeQuestionOption ex_edited 0 0 1 =
     Inr (ex_edited\<lparr>lessons := [\<lparr>l_id = js ''l1'', l_title = [], l_content = [],
            questions = [ex_question\<lparr>options := [js ''a''], correctAnswer := 0\<rparr>]\<rparr>]\<rparr>)"
  using removeQuestionOption_keeps_invariant [of 0 ex_edited 0 ex_question 1]
  by (simp add: ex_edited_def ex_question_def removeQuestionOption_def removeOption_def
        splice1_def Let_def)

subsection \<open>The shape of a text that \<open>JSON.parse\<close> accepts\<close>

lemma passes_Nil: "passes []" by (simp add: passes_def)

lemma passes_append: "passes u \<Longrightarrow> passes v \<Longrightarrow> passes (u @ v)"
  by (simp add: passes_def add.assoc)

lemma passes_plain: "plain c \<Longrightarrow> passes [c]"
  by (simp add: passes_def plain_def)

lemma passes_braces: "passes w \<Longrightarrow> passes (LBRACE # w @ [RBRACE])"
  by (simp add: passes_def)

lemma str_passes_Nil: "str_passes []" by (simp add: str_passes_def)

lemma passes_string: "str_passes b \<Longrightarrow> passes (QUOTE # b @ [QUOTE])"
  by (simp add: passes_def str_passes_def)

lemma nl_tick_free_append:
  "nl_tick_free u \<Longrightarrow> nl_tick_free v \<Longrightarrow> (v \<noteq> [] \<longrightarrow> hd v \<noteq> BACKTICK) \<Longrightarrow> nl_tick_free (u @ v)"
proof (induction u rule: nl_tick_free.induct)
  case 1 then show ?case by simp
next
  case (2 c) then show ?case by (cases v) auto
next
  case (3 c d cs) then show ?case by simp
qed

lemma nl_tick_free_no_nl: "NEWLINE \<notin> set u \<Longrightarrow> nl_tick_free u"
  by (induction u rule: nl_tick_free.induct) auto

lemma nl_tick_free_no_tick: "BACKTICK \<notin> set u \<Longrightarrow> nl_tick_free u"
  by (induction u rule: nl_tick_free.induct) auto

lemma clean_Nil: "clean []" by (simp add: clean_def)

lemma clean_append:
  assumes "clean u" and "clean v"
  shows "clean (u @ v)"
proof -
  have "nl_tick_free (u @ v)"
    using assms by (intro nl_tick_free_append) (simp_all add: clean_def)
  moreover have "u @ v \<noteq> [] \<longrightarrow> hd (u @ v) \<noteq> BACKTICK"
    using assms by (cases u) (simp_all add: clean_def)
  ultimately show ?thesis by (simp add: clean_def)
qed

lemma ok_Nil: "ok []" by (simp add: ok_def passes_Nil clean_Nil)

lemma ok_append: "ok u \<Longrightarrow> ok v \<Longrightarrow> ok (u @ v)"
  by (simp add: ok_def passes_append clean_append)

lemma ok_plain: "plain c \<Longrightarrow> ok [c]"
  by (simp add: ok_def passes_plain clean_def) (simp add: plain_def)

lemma ok_plains: "list_all plain u \<Longrightarrow> ok u"
proof (induction u)
  case Nil show ?case by (rule ok_Nil)
next
  case (Cons c u)
  then have "ok [c]" "ok u" by (simp_all add: ok_plain)
  then have "ok ([c] @ u)" by (rule ok_append)
  then show ?case by simp
qed

lemma ok_braces: "ok w \<Longrightarrow> ok (LBRACE # w @ [RBRACE])"
proof -
  assume w: "ok w"
  then have "passes (LBRACE # w @ [RBRACE])" by (simp add: ok_def passes_braces)
  moreover have "clean ([LBRACE] @ w @ [RBRACE])"
    using w by (intro clean_append) (simp_all add: ok_def clean_def)
  ultimately show ?thesis by (simp add: ok_def)
qed

lemma cons_fst_Some: "cons_fst x r = Some (a, b) \<longleftrightarrow> (\<exists>xs. r = Some (xs, b) \<and> a = x # xs)"
  by (cases r) (auto simp: cons_fst_def)

lemma hexval_plain: "hexval h = Some a \<Longrightarrow> h \<noteq> BACKSLASH \<and> h \<noteq> QUOTE \<and> h \<noteq> NEWLINE"
  by (auto simp: hexval_def split: if_splits)

lemma unescape_not_nl: "unescape e = Some u \<Longrightarrow> e \<noteq> NEWLINE"
  by (auto simp: unescape_def split: if_splits)

lemma string_body_shape:
  "parse_string_body cs = Some (str, r) \<Longrightarrow>
     \<exists>body. cs = body @ QUOTE # r \<and> str_passes body \<and> NEWLINE \<notin> set body"
proof (induction cs arbitrary: str r rule: parse_string_body.induct)
  case 1 then show ?case by simp
next
  case (2 c cs)
  show ?case
  proof (cases "c = QUOTE")
    case True
    with "2.prems" have "cs = r" by simp
    with True show ?thesis by (intro exI[of _ "[]"]) (simp add: str_passes_Nil)
  next
    case nq: False
    show ?thesis
    proof (cases "c = BACKSLASH")
      case bs: True
      show ?thesis
      proof (cases cs)
        case Nil with bs nq "2.prems" show ?thesis by simp
      next
        case (Cons e cs1)
        show ?thesis
        proof (cases "e = 117")
          case u: True
          from "2.prems" bs nq Cons u obtain h1 h2 h3 h4 cs2 a b c' d str' where
            cs1: "cs1 = h1 # h2 # h3 # h4 # cs2"
            and hx: "hexval h1 = Some a" "hexval h2 = Some b" "hexval h3 = Some c'" "hexval h4 = Some d"
            and rec: "parse_string_body cs2 = Some (str', r)"
            by (auto simp: cons_fst_Some split: list.splits option.splits)
          from "2.IH"(1)[OF nq bs Cons u cs1 refl refl refl refl hx(1) refl hx(2) refl hx(3) hx(4) rec]
          obtain body where body: "cs2 = body @ QUOTE # r" "str_passes body" "NEWLINE \<notin> set body"
            by auto
          let ?b = "c # e # h1 # h2 # h3 # h4 # body"
          have "c # cs = ?b @ QUOTE # r" using Cons cs1 body by simp
          moreover have "str_passes ?b"
            using body(2) bs u hexval_plain[OF hx(1)] hexval_plain[OF hx(2)]
              hexval_plain[OF hx(3)] hexval_plain[OF hx(4)]
            by (simp add: str_passes_def)
          moreover have "NEWLINE \<notin> set ?b"
            using body(3) bs u hexval_plain[OF hx(1)] hexval_plain[OF hx(2)]
              hexval_plain[OF hx(3)] hexval_plain[OF hx(4)]
            by simp
          ultimately show ?thesis by blast
        next
          case nu: False
          from "2.prems" bs nq Cons nu obtain u str' where
            un: "unescape e = Some u" and rec: "parse_string_body cs1 = Some (str', r)"
            by (auto simp: cons_fst_Some split: option.splits)
          from "2.IH"(2)[OF nq bs Cons nu un rec]
          obtain body where body: "cs1 = body @ QUOTE # r" "str_passes body" "NEWLINE \<notin> set body"
            by auto
          let ?b = "c # e # body"
          have "c # cs = ?b @ QUOTE # r" using Cons body by simp
          moreover have "str_passes ?b" using body(2) bs by (simp add: str_passes_def)
          moreover have "NEWLINE \<notin> set ?b" using body(3) bs unescape_not_nl[OF un] by simp
          ultimately show ?thesis by blast
        qed
      qed
    next
      case nb: False
      from "2.prems" nq nb obtain str' where
        ge: "\<not> c < 32" and rec: "parse_string_body cs = Some (str', r)"
        by (auto simp: cons_fst_Some split: if_splits)
      from "2.IH"(3)[OF nq nb ge rec]
      obtain body where body: "cs = body @ QUOTE # r" "str_passes body" "NEWLINE \<notin> set body"
        by auto
      let ?b = "c # body"
      have "c # cs = ?b @ QUOTE # r" using body by simp
      moreover have "str_passes ?b" using body(2) nq nb by (simp add: str_passes_def)
      moreover have "NEWLINE \<notin> set ?b" using body(3) ge by auto
      ultimately show ?thesis by blast
    qed
  qed
qed

lemma ok_string:
  assumes "parse_string_body cs = Some (str, r)"
  shows "\<exists>body. cs = body @ QUOTE # r \<and> ok (QUOTE # body @ [QUOTE])"
proof -
  from string_body_shape[OF assms] obtain body where
    b: "cs = body @ QUOTE # r" "str_passes body" "NEWLINE \<notin> set body" by blast
  have "passes (QUOTE # body @ [QUOTE])" using b(2) by (rule passes_string)
  moreover have "clean (QUOTE # body @ [QUOTE])"
    using b(3) by (simp add: clean_def nl_tick_free_no_nl)
  ultimately show ?thesis using b(1) by (auto simp: ok_def)
qed

lemma digit_plain: "is_digit c \<Longrightarrow> plain c"
  by (auto simp: is_digit_def plain_def)

lemma takeWhile_digits_plain: "list_all plain (takeWhile is_digit s)"
  by (induction s) (auto simp: digit_plain)

lemma take_sign_shape: "take_sign s = (u, r) \<Longrightarrow> s = u @ r \<and> list_all plain u"
  by (auto simp: take_sign_def plain_def split: list.splits if_splits)

lemma take_int_shape: "take_int s = Some (u, r) \<Longrightarrow> s = u @ r \<and> list_all plain u \<and> u \<noteq> []"
  by (auto simp: take_int_def plain_def is_digit_def takeWhile_digits_plain split: list.splits if_splits)

lemma take_frac_shape: "take_frac s = Some (u, r) \<Longrightarrow> s = u @ r \<and> list_all plain u"
  by (auto simp: take_frac_def plain_def takeWhile_digits_plain split: list.splits if_splits)

lemma take_exp_shape: "take_exp s = Some (u, r) \<Longrightarrow> s = u @ r \<and> list_all plain u"
  by (auto simp: take_exp_def plain_def is_digit_def takeWhile_digits_plain split: list.splits if_splits)

lemma number_shape:
  assumes "parse_number s = Some (x, r)"
  shows "\<exists>u. s = u @ r \<and> list_all plain u \<and> u \<noteq> []"
proof -
  from assms obtain sg s1 ids s2 fr s3 ex where
    a: "take_sign s = (sg, s1)" and b: "take_int s1 = Some (ids, s2)"
    and c: "take_frac s2 = Some (fr, s3)" and d: "take_exp s3 = Some (ex, r)"
    by (auto simp: parse_number_def split: prod.splits option.splits)
  have "s = (sg @ ids @ fr @ ex) @ r"
    using take_sign_shape[OF a] take_int_shape[OF b] take_frac_shape[OF c] take_exp_shape[OF d]
    by simp
  moreover have "list_all plain (sg @ ids @ fr @ ex)"
    using take_sign_shape[OF a] take_int_shape[OF b] take_frac_shape[OF c] take_exp_shape[OF d]
    by simp
  moreover have "sg @ ids @ fr @ ex \<noteq> []"
    using take_int_shape[OF b] by simp
  ultimately show ?thesis by blast
qed

lemma ws_plain: "json_ws c \<Longrightarrow> plain c"
  by (auto simp: json_ws_def plain_def)

lemma skip_ws_shape: "\<exists>w. s = w @ skip_ws s \<and> ok w"
proof -
  have "s = takeWhile json_ws s @ skip_ws s" by (simp add: skip_ws_def)
  moreover have "list_all plain (takeWhile json_ws s)"
    by (induction s) (auto simp: ws_plain)
  ultimately show ?thesis using ok_plains by blast
qed

lemma skip_ws_Cons_shape: "skip_ws s = d # ds \<Longrightarrow> \<exists>w. s = w @ d # ds \<and> ok w"
  using skip_ws_shape[of s] by auto

lemma prefix_shape: "prefix p s \<Longrightarrow> s = p @ drop (length p) s"
  by (auto simp: prefix_def)

lemma is_obj_build: "\<exists>kvs. build_object ms = JObj kvs"
  by (simp add: build_object_def)

lemma parse_shapes:
  "(\<forall>s v r. parse_value n s = Some (v, r) \<longrightarrow>
       (\<exists>u. s = u @ r \<and> u \<noteq> [] \<and> ok u \<and> obj_shape v u)) \<and>
   (\<forall>s vs r. parse_elements n s = Some (vs, r) \<longrightarrow> (\<exists>u. s = u @ RBRACKET # r \<and> ok u)) \<and>
   (\<forall>s ms r. parse_members n s = Some (ms, r) \<longrightarrow> (\<exists>u. s = u @ RBRACE # r \<and> ok u))"
proof (induction n)
  case 0
  show ?case by simp
next
  case (Suc n)
  then have IHv: "\<And>s v r. parse_value n s = Some (v, r) \<Longrightarrow> \<exists>u. s = u @ r \<and> ok u"
    and IHe: "\<And>s vs r. parse_elements n s = Some (vs, r) \<Longrightarrow> \<exists>u. s = u @ RBRACKET # r \<and> ok u"
    and IHm: "\<And>s ms r. parse_members n s = Some (ms, r) \<Longrightarrow> \<exists>u. s = u @ RBRACE # r \<and> ok u"
    by blast+
  have V: "\<exists>u. s = u @ r \<and> u \<noteq> [] \<and> ok u \<and> obj_shape v u" if pv: "parse_value (Suc n) s = Some (v, r)" for s v r
  proof (cases s)
    case Nil with pv show ?thesis by simp
  next
    case (Cons c cs)
    consider (obj) "c = LBRACE" | (arr) "c = LBRACKET" | (str) "c = QUOTE"
      | (num) "c \<noteq> LBRACE" "c \<noteq> LBRACKET" "c \<noteq> QUOTE" "c = 45 \<or> is_digit c"
      | (lit) "c \<noteq> LBRACE" "c \<noteq> LBRACKET" "c \<noteq> QUOTE" "\<not> (c = 45 \<or> is_digit c)"
      by blast
    then show ?thesis
    proof cases
      case obj
      from pv Cons obj obtain d ds where sk: "skip_ws cs = d # ds"
        by (auto split: list.splits)
      from skip_ws_Cons_shape[OF sk] obtain w where w: "cs = w @ d # ds" "ok w" by blast
      show ?thesis
      proof (cases "d = RBRACE")
        case True
        with pv Cons obj sk have "r = ds" by simp
        with w True Cons obj have "s = (LBRACE # w @ [RBRACE]) @ r" by simp
        moreover have "ok (LBRACE # w @ [RBRACE])" using w(2) by (rule ok_braces)
        moreover have "obj_shape v (LBRACE # w @ [RBRACE])" using w(2) by (auto simp: obj_shape_def)
        moreover have "LBRACE # w @ [RBRACE] \<noteq> []" by simp
        ultimately show ?thesis by blast
      next
        case False
        with pv Cons obj sk obtain ms where ms: "parse_members n (d # ds) = Some (ms, r)"
          by auto
        from IHm[OF ms] obtain u where u: "d # ds = u @ RBRACE # r" "ok u" by blast
        have wu: "ok (w @ u)" using w(2) u(2) by (rule ok_append)
        have "s = (LBRACE # (w @ u) @ [RBRACE]) @ r" using Cons obj w(1) u(1) by simp
        moreover have "ok (LBRACE # (w @ u) @ [RBRACE])" using wu by (rule ok_braces)
        moreover have "obj_shape v (LBRACE # (w @ u) @ [RBRACE])"
          using wu unfolding obj_shape_def by blast
        moreover have "LBRACE # (w @ u) @ [RBRACE] \<noteq> []" by simp
        ultimately show ?thesis by blast
      qed
    next
      case arr
      from pv Cons arr obtain d ds where sk: "skip_ws cs = d # ds"
        by (auto split: list.splits)
      from skip_ws_Cons_shape[OF sk] obtain w where w: "cs = w @ d # ds" "ok w" by blast
      have lb: "ok [LBRACKET]" and rb: "ok [RBRACKET]" by (simp_all add: ok_plain plain_def)
      show ?thesis
      proof (cases "d = RBRACKET")
        case True
        with pv Cons arr sk have r: "r = ds" and v: "v = JArr []" by simp_all
        from w True Cons arr r have "s = ([LBRACKET] @ w @ [RBRACKET]) @ r" by simp
        moreover have "ok ([LBRACKET] @ w @ [RBRACKET])" by (intro ok_append lb rb w(2))
        moreover have "obj_shape v ([LBRACKET] @ w @ [RBRACKET])" using v by (simp add: obj_shape_def)
        moreover have "[LBRACKET] @ w @ [RBRACKET] \<noteq> []" by simp
        ultimately show ?thesis by blast
      next
        case False
        with pv Cons arr sk obtain vs where vs: "parse_elements n (d # ds) = Some (vs, r)"
          and v: "v = JArr vs"
          by auto
        from IHe[OF vs] obtain u where u: "d # ds = u @ RBRACKET # r" "ok u" by blast
        have "s = ([LBRACKET] @ w @ u @ [RBRACKET]) @ r" using Cons arr w(1) u(1) by simp
        moreover have "ok ([LBRACKET] @ w @ u @ [RBRACKET])" by (intro ok_append lb rb w(2) u(2))
        moreover have "obj_shape v ([LBRACKET] @ w @ u @ [RBRACKET])" using v by (simp add: obj_shape_def)
        moreover have "[LBRACKET] @ w @ u @ [RBRACKET] \<noteq> []" by simp
        ultimately show ?thesis by blast
      qed
    next
      case str
      with pv Cons obtain st where st: "parse_string_body cs = Some (st, r)" and v: "v = JStr st"
        by auto
      from ok_string[OF st] obtain body where b: "cs = body @ QUOTE # r" "ok (QUOTE # body @ [QUOTE])"
        by blast
      have "s = (QUOTE # body @ [QUOTE]) @ r" using Cons str b(1) by simp
      moreover have "obj_shape v (QUOTE # body @ [QUOTE])" using v by (simp add: obj_shape_def)
      moreover have "QUOTE # body @ [QUOTE] \<noteq> []" by simp
      ultimately show ?thesis using b(2) by blast
    next
      case num
      with pv Cons obtain x where x: "parse_number s = Some (x, r)" and v: "v = JNum x"
        by auto
      from number_shape[OF x] obtain u where u: "s = u @ r" "list_all plain u" "u \<noteq> []" by blast
      have "obj_shape v u" using v by (simp add: obj_shape_def)
      with u ok_plains show ?thesis by blast
    next
      case lit
      have pl: "list_all plain (js ''true'')" "list_all plain (js ''false'')" "list_all plain (js ''null'')"
        by (simp_all add: js_def plain_def)
      have ne: "js ''true'' \<noteq> []" "js ''false'' \<noteq> []" "js ''null'' \<noteq> []"
        by (simp_all add: js_def)
      from lit pv Cons consider
          (t) "prefix (js ''true'') s" "r = drop 4 s" "v = JBool True"
        | (f) "prefix (js ''false'') s" "r = drop 5 s" "v = JBool False"
        | (n) "prefix (js ''null'') s" "r = drop 4 s" "v = JNull"
        by (auto split: if_splits)
      then show ?thesis
      proof cases
        case t
        have "length (js ''true'') = 4" by (simp add: js_def)
        with prefix_shape[OF t(1)] t(2) have "s = js ''true'' @ r" by simp
        moreover have "obj_shape v (js ''true'')" using t(3) by (simp add: obj_shape_def)
        ultimately show ?thesis using ok_plains[OF pl(1)] ne(1) by blast
      next
        case f
        have "length (js ''false'') = 5" by (simp add: js_def)
        with prefix_shape[OF f(1)] f(2) have "s = js ''false'' @ r" by simp
        moreover have "obj_shape v (js ''false'')" using f(3) by (simp add: obj_shape_def)
        ultimately show ?thesis using ok_plains[OF pl(2)] ne(2) by blast
      next
        case n
        have "length (js ''null'') = 4" by (simp add: js_def)
        with prefix_shape[OF n(1)] n(2) have "s = js ''null'' @ r" by simp
        moreover have "obj_shape v (js ''null'')" using n(3) by (simp add: obj_shape_def)
        ultimately show ?thesis using ok_plains[OF pl(3)] ne(3) by blast
      qed
    qed
  qed
  have comma: "ok [COMMA]" and colon: "ok [COLON]" by (simp_all add: ok_plain plain_def)
  have E: "\<exists>u. s = u @ RBRACKET # r \<and> ok u" if pe: "parse_elements (Suc n) s = Some (vs, r)" for s vs r
  proof -
    from pe obtain v r1 where v: "parse_value n (skip_ws s) = Some (v, r1)"
      by (auto split: option.splits)
    from pe v obtain d ds where sk: "skip_ws r1 = d # ds"
      by (auto split: list.splits)
    from skip_ws_shape[of s] obtain w0 where w0: "s = w0 @ skip_ws s" "ok w0" by blast
    from IHv[OF v] obtain u1 where u1: "skip_ws s = u1 @ r1" "ok u1" by blast
    from skip_ws_Cons_shape[OF sk] obtain w1 where w1: "r1 = w1 @ d # ds" "ok w1" by blast
    have s: "s = w0 @ u1 @ w1 @ d # ds" using w0(1) u1(1) w1(1) by simp
    show ?thesis
    proof (cases "d = COMMA")
      case True
      with pe v sk obtain vs' where rec: "parse_elements n ds = Some (vs', r)"
        by (auto simp: cons_fst_Some)
      from IHe[OF rec] obtain u2 where u2: "ds = u2 @ RBRACKET # r" "ok u2" by blast
      have "s = (w0 @ u1 @ w1 @ [COMMA] @ u2) @ RBRACKET # r" using s True u2(1) by simp
      moreover have "ok (w0 @ u1 @ w1 @ [COMMA] @ u2)"
        by (intro ok_append w0(2) u1(2) w1(2) comma u2(2))
      ultimately show ?thesis by blast
    next
      case False
      with pe v sk have "d = RBRACKET" "r = ds" by (auto split: if_splits)
      then have "s = (w0 @ u1 @ w1) @ RBRACKET # r" using s by simp
      moreover have "ok (w0 @ u1 @ w1)" by (intro ok_append w0(2) u1(2) w1(2))
      ultimately show ?thesis by blast
    qed
  qed
  have M: "\<exists>u. s = u @ RBRACE # r \<and> ok u" if pm: "parse_members (Suc n) s = Some (ms, r)" for s ms r
  proof -
    from pm obtain cs where q: "skip_ws s = QUOTE # cs"
      by (auto split: list.splits if_splits)
    from pm q obtain k r0 where k: "parse_string_body cs = Some (k, r0)"
      by (auto split: option.splits)
    from pm q k obtain r1 where col: "skip_ws r0 = COLON # r1"
      by (auto split: list.splits if_splits)
    from pm q k col obtain v r2 where v: "parse_value n (skip_ws r1) = Some (v, r2)"
      by (auto split: option.splits)
    from pm q k col v obtain d ds where sk: "skip_ws r2 = d # ds"
      by (auto split: list.splits)
    from skip_ws_Cons_shape[OF q] obtain w0 where w0: "s = w0 @ QUOTE # cs" "ok w0" by blast
    from ok_string[OF k] obtain body where b: "cs = body @ QUOTE # r0" "ok (QUOTE # body @ [QUOTE])"
      by blast
    from skip_ws_Cons_shape[OF col] obtain w1 where w1: "r0 = w1 @ COLON # r1" "ok w1" by blast
    from skip_ws_shape[of r1] obtain w2 where w2: "r1 = w2 @ skip_ws r1" "ok w2" by blast
    from IHv[OF v] obtain u1 where u1: "skip_ws r1 = u1 @ r2" "ok u1" by blast
    from skip_ws_Cons_shape[OF sk] obtain w3 where w3: "r2 = w3 @ d # ds" "ok w3" by blast
    let ?m = "w0 @ (QUOTE # body @ [QUOTE]) @ w1 @ [COLON] @ w2 @ u1 @ w3"
    have "r1 = w2 @ u1 @ w3 @ d # ds" using w2(1) u1(1) w3(1) by simp
    then have s: "s = ?m @ d # ds" using w0(1) b(1) w1(1) by simp
    have okm: "ok ?m" by (intro ok_append w0(2) b(2) w1(2) colon w2(2) u1(2) w3(2))
    show ?thesis
    proof (cases "d = COMMA")
      case True
      with pm q k col v sk obtain ms' where rec: "parse_members n ds = Some (ms', r)"
        by (auto simp: cons_fst_Some)
      from IHm[OF rec] obtain u2 where u2: "ds = u2 @ RBRACE # r" "ok u2" by blast
      have "s = (?m @ [COMMA] @ u2) @ RBRACE # r" using s True u2(1) by simp
      moreover have "ok (?m @ [COMMA] @ u2)" by (intro ok_append okm comma u2(2))
      ultimately show ?thesis by blast
    next
      case False
      with pm q k col v sk have "d = RBRACE" "r = ds" by (auto split: if_splits)
      then have "s = ?m @ RBRACE # r" using s by simp
      with okm show ?thesis by blast
    qed
  qed
  from V E M show ?case by blast
qed

lemma json_object_text_shape:
  assumes "json_object_text t"
  shows "\<exists>w. t = LBRACE # w @ [RBRACE] \<and> ok w"
proof -
  from assms obtain kvs where "parse_value (parse_fuel t) t = Some (JObj kvs, [])"
    by (auto simp: json_object_text_def split: option.splits prod.splits json.splits list.splits)
  with parse_shapes[of "parse_fuel t"] obtain u where "t = u @ []" "obj_shape (JObj kvs) u"
    by blast
  then show ?thesis by (simp add: obj_shape_def)
qed

subsection \<open>The bound of the parser is enough\<close>

lemma value_consumes: "parse_value n s = Some (v, r) \<Longrightarrow> length r < length s"
proof -
  assume "parse_value n s = Some (v, r)"
  with parse_shapes[of n] obtain u where "s = u @ r" "u \<noteq> []" by blast
  then show ?thesis by (cases u) simp_all
qed

lemma string_consumes: "parse_string_body cs = Some (k, r) \<Longrightarrow> length r < length cs"
  using string_body_shape by fastforce

lemma skip_ws_length: "length (skip_ws s) \<le> length s"
  by (simp add: skip_ws_def length_dropWhile_le)

lemma skip_ws_Cons_length: "skip_ws s = d # ds \<Longrightarrow> length ds < length s"
  using skip_ws_length[of s] by simp

lemma fuel_stable:
  "(\<forall>s k. 2 * length s + 1 \<le> n \<longrightarrow> parse_value (n + k) s = parse_value n s) \<and>
   (\<forall>s k. 2 * length s + 2 \<le> n \<longrightarrow> parse_elements (n + k) s = parse_elements n s) \<and>
   (\<forall>s k. 2 * length s + 2 \<le> n \<longrightarrow> parse_members (n + k) s = parse_members n s)"
proof (induction n)
  case 0
  show ?case by simp
next
  case (Suc n)
  then have IHv: "\<And>s k. 2 * length s + 1 \<le> n \<Longrightarrow> parse_value (n + k) s = parse_value n s"
    and IHe: "\<And>s k. 2 * length s + 2 \<le> n \<Longrightarrow> parse_elements (n + k) s = parse_elements n s"
    and IHm: "\<And>s k. 2 * length s + 2 \<le> n \<Longrightarrow> parse_members (n + k) s = parse_members n s"
    by blast+
  have V: "parse_value (Suc n + k) s = parse_value (Suc n) s" if b: "2 * length s + 1 \<le> Suc n" for s k
  proof (cases s)
    case Nil
    then show ?thesis by simp
  next
    case (Cons c cs)
    have M: "parse_members (n + k) (d # ds) = parse_members n (d # ds)" if "skip_ws cs = d # ds" for d ds
    proof -
      have "length ds < length cs" using that by (rule skip_ws_Cons_length)
      with b Cons have "2 * length (d # ds) + 2 \<le> n" by simp
      then show ?thesis by (rule IHm)
    qed
    have E: "parse_elements (n + k) (d # ds) = parse_elements n (d # ds)" if "skip_ws cs = d # ds" for d ds
    proof -
      have "length ds < length cs" using that by (rule skip_ws_Cons_length)
      with b Cons have "2 * length (d # ds) + 2 \<le> n" by simp
      then show ?thesis by (rule IHe)
    qed
    show ?thesis
      using Cons by (simp add: M E split: list.splits)
  qed
  have El: "parse_elements (Suc n + k) s = parse_elements (Suc n) s" if b: "2 * length s + 2 \<le> Suc n" for s k
  proof -
    have "2 * length (skip_ws s) + 1 \<le> n" using b skip_ws_length[of s] by simp
    then have pv: "parse_value (n + k) (skip_ws s) = parse_value n (skip_ws s)" by (rule IHv)
    have rec: "parse_elements (n + k) ds = parse_elements n ds"
      if "parse_value n (skip_ws s) = Some (v, r)" "skip_ws r = d # ds" for v r d ds
    proof -
      have "length r < length (skip_ws s)" using that(1) by (rule value_consumes)
      moreover have "length ds < length r" using that(2) by (rule skip_ws_Cons_length)
      ultimately have "2 * length ds + 2 \<le> n" using b skip_ws_length[of s] by simp
      then show ?thesis by (rule IHe)
    qed
    show ?thesis
      by (simp add: pv rec split: option.splits list.splits prod.splits)
  qed
  have Me: "parse_members (Suc n + k) s = parse_members (Suc n) s" if b: "2 * length s + 2 \<le> Suc n" for s k
  proof -
    have pv: "parse_value (n + k) (skip_ws r1) = parse_value n (skip_ws r1)"
      if "skip_ws s = q # cs" "parse_string_body cs = Some (key, r)" "skip_ws r = col # r1"
      for q cs key r col r1
    proof -
      have "length cs < length s" using that(1) by (rule skip_ws_Cons_length)
      moreover have "length r < length cs" using that(2) by (rule string_consumes)
      moreover have "length r1 < length r" using that(3) by (rule skip_ws_Cons_length)
      ultimately have "2 * length (skip_ws r1) + 1 \<le> n" using b skip_ws_length[of r1] by simp
      then show ?thesis by (rule IHv)
    qed
    have rec: "parse_members (n + k) ds = parse_members n ds"
      if "skip_ws s = q # cs" "parse_string_body cs = Some (key, r)" "skip_ws r = col # r1"
         "parse_value n (skip_ws r1) = Some (v, r2)" "skip_ws r2 = d # ds"
      for q cs key r col r1 v r2 d ds
    proof -
      have "length cs < length s" using that(1) by (rule skip_ws_Cons_length)
      moreover have "length r < length cs" using that(2) by (rule string_consumes)
      moreover have "length r1 < length r" using that(3) by (rule skip_ws_Cons_length)
      moreover have "length r2 < length (skip_ws r1)" using that(4) by (rule value_consumes)
      moreover have "length ds < length r2" using that(5) by (rule skip_ws_Cons_length)
      ultimately have "2 * length ds + 2 \<le> n" using b skip_ws_length[of r1] by simp
      then show ?thesis by (rule IHm)
    qed
    show ?thesis
      by (simp add: pv rec split: option.splits list.splits prod.splits)
  qed
  from V El Me show ?case by blast
qed

text \<open>
  \<open>JSON_parse\<close> and \<open>json_object_text\<close> do not depend on their bound: with any greater
  bound the parser returns the same, so that a text is rejected for its syntax only.
\<close>

lemma parse_fuel_enough:
  assumes "parse_fuel s \<le> n" and "length t \<le> length s"
  shows "parse_value n t = parse_value (parse_fuel s) t"
proof -
  have b: "2 * length t + 1 \<le> parse_fuel s" using assms(2) by (simp add: parse_fuel_def)
  obtain k where "n = parse_fuel s + k" using assms(1) by (metis le_add_diff_inverse)
  with fuel_stable[of "parse_fuel s"] b show ?thesis by simp
qed

subsection \<open>Extraction by brace scan\<close>

lemma not_space_braces: "\<not> is_space LBRACE" "\<not> is_space RBRACE" "\<not> is_space BACKTICK"
  by (simp_all add: is_space_def)

lemma trim_core:
  assumes "m \<noteq> []" and "\<not> is_space (hd m)" and "\<not> is_space (last m)"
  shows "trim (a @ m @ b) = dropWhile is_space a @ m @ rev (dropWhile is_space (rev b))"
proof -
  obtain x m' where m: "m = x # m'" using assms(1) by (cases m) auto
  have l: "dropWhile is_space (a @ m @ b) = dropWhile is_space a @ m @ b"
    using assms(2) m by (simp add: dropWhile_append)
  obtain m'' y where m2: "m = m'' @ [y]" using assms(1) by (cases m rule: rev_cases) auto
  have "dropWhile is_space (rev (dropWhile is_space a @ m @ b))
          = dropWhile is_space (rev b) @ rev m @ rev (dropWhile is_space a)"
    using assms(3) m2 by (simp add: dropWhile_append)
  then show ?thesis unfolding trim_def l by simp
qed

lemma trim_id:
  assumes "m \<noteq> []" and "\<not> is_space (hd m)" and "\<not> is_space (last m)"
  shows "trim m = m"
  using trim_core[OF assms, of "[]" "[]"] by simp

lemma indexOf_None_iff: "indexOf s p = None \<longleftrightarrow> p \<noteq> [] \<and> (\<forall>a b. s \<noteq> a @ p @ b)"
proof (induction s)
  case Nil
  show ?case by auto
next
  case (Cons c s)
  show ?case
  proof (cases "prefix p (c # s)")
    case True
    then obtain b where "c # s = p @ b" by (auto simp: prefix_def)
    then have "c # s = [] @ p @ b" by simp
    with True show ?thesis
      by (metis indexOf.simps(2) option.distinct(1) prefix_code(1))
  next
    case False
    then have pne: "p \<noteq> []" by auto
    have "(\<forall>a b. c # s \<noteq> a @ p @ b) \<longleftrightarrow> (\<forall>a b. s \<noteq> a @ p @ b)"
    proof
      assume h: "\<forall>a b. c # s \<noteq> a @ p @ b"
      show "\<forall>a b. s \<noteq> a @ p @ b"
      proof (intro allI notI)
        fix a b assume "s = a @ p @ b"
        then have "c # s = (c # a) @ p @ b" by simp
        with h show False by blast
      qed
    next
      assume h: "\<forall>a b. s \<noteq> a @ p @ b"
      show "\<forall>a b. c # s \<noteq> a @ p @ b"
      proof (intro allI notI)
        fix a b assume e: "c # s = a @ p @ b"
        show False
        proof (cases a)
          case Nil
          with e have "prefix p (c # s)" by (simp add: prefix_def)
          with False show False by simp
        next
          case (Cons x a')
          with e have "s = a' @ p @ b" by simp
          with h show False by blast
        qed
      qed
    qed
    with False pne Cons.IH show ?thesis by simp
  qed
qed

lemma not_includes_part:
  assumes "\<not> str_includes (a @ m @ b) p"
  shows "\<not> str_includes m p"
  using assms unfolding str_includes_def indexOf_None_iff
  by (metis append.assoc)

lemma match_fence_None:
  assumes "\<not> str_includes s p" and "prefix p opening"
  shows "match_fence opening s = None"
  using assms(1)
proof (induction s)
  case Nil
  show ?case by simp
next
  case (Cons c s)
  have np: "\<not> prefix opening (c # s)"
  proof
    assume "prefix opening (c # s)"
    with assms(2) have "prefix p (c # s)" by (rule prefix_order.trans)
    then have "indexOf (c # s) p = Some 0" by simp
    with Cons.prems show False by (simp add: str_includes_def)
  qed
  have "\<not> str_includes s p"
    using not_includes_part[of "[c]" s "[]" p] Cons.prems by simp
  with Cons.IH np show ?case by simp
qed

lemma indexOf_first:
  "c \<notin> set a \<Longrightarrow> indexOf (a @ c # b) [c] = Some (length a)"
  by (induction a) auto

lemma brace_scan_object:
  assumes "passes w"
  shows "brace_scan (LBRACE # w @ RBRACE # tail) i 0 je False False = (0, i + length w + 2)"
  using assms by (simp add: passes_def)

lemma trimmed_parts:
  "dropWhile is_space a = a' \<Longrightarrow> set a' \<subseteq> set a"
  by (auto dest: set_dropWhileD)

text \<open>
  Claim C1. Let the input contain no code fence marker \<open>```\<close>, and let its first \<open>{\<close>
  begin a well-formed JSON object \<open>obj\<close>, with any text \<open>pre\<close> before it and any text
  \<open>post\<close> after it. Then \<open>extractAndParseJSON\<close> returns exactly \<open>obj\<close>: the text from
  that first \<open>{\<close> to its matching \<open>}\<close>. Braces inside the strings of \<open>obj\<close>, also after
  backslash escapes, and braces in \<open>post\<close> do not move the end.
\<close>

theorem extract_object_by_brace_scan:
  assumes nf: "\<not> str_includes (pre @ obj @ post) (js ''```'')"
    and nb: "LBRACE \<notin> set pre"
    and wf: "json_object_text obj"
  shows "extractAndParseJSON (pre @ obj @ post) = Inr obj"
proof -
  from json_object_text_shape[OF wf] obtain w where w: "obj = LBRACE # w @ [RBRACE]" "ok w"
    by blast
  define pre' where "pre' = dropWhile is_space pre"
  define post' where "post' = rev (dropWhile is_space (rev post))"
  have ne: "obj \<noteq> []" and hd: "\<not> is_space (hd obj)" and la: "\<not> is_space (last obj)"
    using w(1) by (simp_all add: not_space_braces)
  have t: "trim (pre @ obj @ post) = pre' @ obj @ post'"
    unfolding pre'_def post'_def using ne hd la by (rule trim_core)
  obtain p1 where p1: "pre = p1 @ pre'"
    unfolding pre'_def by (metis takeWhile_dropWhile_id)
  obtain p2 where p2: "post = post' @ p2"
    unfolding post'_def by (metis rev_append rev_rev_ident takeWhile_dropWhile_id)
  have "\<not> str_includes (p1 @ (pre' @ obj @ post') @ p2) (js ''```'')"
    using nf p1 p2 by simp
  then have nf': "\<not> str_includes (pre' @ obj @ post') (js ''```'')"
    by (rule not_includes_part)
  have f1: "match_fence json_fence_open (pre' @ obj @ post') = None"
    using nf' by (rule match_fence_None) (simp add: json_fence_open_def js_def)
  have f2: "match_fence plain_fence_open (pre' @ obj @ post') = None"
    using nf' by (rule match_fence_None) (simp add: plain_fence_open_def)
  have "LBRACE \<notin> set pre'" using nb p1 by auto
  then have fb: "indexOf (pre' @ obj @ post') [LBRACE] = Some (length pre')"
    using indexOf_first[of LBRACE pre' "w @ [RBRACE] @ post'"] w(1) by simp
  have sc: "brace_scan (drop (length pre') (pre' @ obj @ post')) (length pre') 0 (length pre') False False
              = (0, length pre' + length obj)"
    using brace_scan_object[of w post' "length pre'" "length pre'"] w by (simp add: ok_def)
  have sub: "substring (pre' @ obj @ post') (length pre') (length pre' + length obj) = obj"
    by (simp add: substring_def Let_def min_def max_def)
  have tr: "trim obj = obj" using ne hd la by (rule trim_id)
  have sw: "startsWith obj LBRACE" using w(1) by (simp add: startsWith_def)
  have ew: "endsWith obj RBRACE" using w(1) by (simp add: endsWith_def)
  show ?thesis
    unfolding extractAndParseJSON_def t Let_def f1 f2 fb
    using sc sub tr sw ew ne by simp
qed

theorem extract_object_by_brace_scan_witness:
  "\<not> str_includes (js ''Here: '' @ js ''{\"code\": \"if (x) { return }\"}'' @ js '' and } more'')
        (js ''```'') \<and>
   LBRACE \<notin> set (js ''Here: '') \<and>
   json_object_text (js ''{\"code\": \"if (x) { return }\"}'') \<and>
   extractAndParseJSON (js ''Here: '' @ js ''{\"code\": \"if (x) { return }\"}'' @ js '' and } more'')
     = Inr (js ''{\"code\": \"if (x) { return }\"}'')"
proof -
  have h1: "\<not> str_includes (js ''Here: '' @ js ''{\"code\": \"if (x) { return }\"}'' @ js '' and } more'')
                 (js ''```'')"
    by code_simp
  have h2: "LBRACE \<notin> set (js ''Here: '')"
    by code_simp
  have h3: "json_object_text (js ''{\"code\": \"if (x) { return }\"}'')"
    by code_simp
  show ?thesis
    using h1 h2 h3 extract_object_by_brace_scan [OF h1 h2 h3]
    by (intro conjI)
qed

subsection \<open>Extraction from a fenced block\<close>

lemma first_fence:
  "nl_tick_free a \<Longrightarrow> indexOf (a @ fence_close @ b) fence_close = Some (length a)"
  by (induction a rule: nl_tick_free.induct) (auto simp: fence_close_def)

lemma fence_backtrack_hit:
  assumes "fence_attempt k0 rest = Some body"
    and "\<forall>j. k0 < j \<and> j \<le> k \<longrightarrow> fence_attempt j rest = None"
    and "k0 \<le> k"
  shows "fence_backtrack k rest = Some body"
  using assms(2,3)
proof (induction k)
  case 0
  with assms(1) show ?case by simp
next
  case (Suc k)
  show ?case
  proof (cases "k0 = Suc k")
    case True
    with assms(1) show ?thesis by simp
  next
    case False
    with Suc.prems have "k0 \<le> k" and "fence_attempt (Suc k) rest = None" by auto
    moreover have "\<forall>j. k0 < j \<and> j \<le> k \<longrightarrow> fence_attempt j rest = None"
      using Suc.prems(1) by auto
    ultimately show ?thesis using Suc.IH by simp
  qed
qed

lemma ws_clean: "list_all is_space w \<Longrightarrow> clean w"
proof -
  assume a: "list_all is_space w"
  have "BACKTICK \<notin> set w"
  proof
    assume "BACKTICK \<in> set w"
    with a have "is_space BACKTICK" by (simp add: list_all_iff)
    then show False by (simp add: is_space_def)
  qed
  then show ?thesis by (cases w) (auto simp: clean_def nl_tick_free_no_tick)
qed

lemma fence_body_hit:
  assumes w1: "list_all is_space w1"
    and w2: "list_all (\<lambda>c. is_space c \<and> c \<noteq> NEWLINE) w2"
    and w3: "list_all is_space w3"
    and obj: "obj = LBRACE # w @ [RBRACE]" "ok w"
  shows "fence_body (w1 @ [NEWLINE] @ w2 @ obj @ w3 @ fence_close @ post) = Some (w2 @ obj @ w3)"
proof -
  let ?rest = "w1 @ [NEWLINE] @ w2 @ obj @ w3 @ fence_close @ post"
  have w2s: "list_all is_space w2" using w2 by (simp add: list_all_iff)
  have run: "takeWhile is_space ?rest = w1 @ [NEWLINE] @ w2"
  proof -
    have "\<And>x. x \<in> set (w1 @ [NEWLINE] @ w2) \<Longrightarrow> is_space x"
      using w1 w2s by (auto simp: list_all_iff is_space_def)
    then have "takeWhile is_space ((w1 @ [NEWLINE] @ w2) @ (obj @ w3 @ fence_close @ post))
                 = (w1 @ [NEWLINE] @ w2) @ takeWhile is_space (obj @ w3 @ fence_close @ post)"
      by (rule takeWhile_append2)
    then show ?thesis using obj(1) by (simp add: is_space_def)
  qed
  have okobj: "ok obj" unfolding obj(1) using obj(2) by (rule ok_braces)
  have cl: "clean (w2 @ obj @ w3)"
    using ws_clean[OF w2s] ws_clean[OF w3] okobj by (intro clean_append) (simp_all add: ok_def)
  have dr: "drop (Suc (length w1)) ?rest = (w2 @ obj @ w3) @ fence_close @ post" by simp
  have at: "fence_attempt (length w1) ?rest = Some (w2 @ obj @ w3)"
    unfolding fence_attempt_def dr using first_fence[of "w2 @ obj @ w3" post] cl
    by (simp add: clean_def nth_append)
  have no: "\<forall>j. length w1 < j \<and> j \<le> length (w1 @ [NEWLINE] @ w2) \<longrightarrow> fence_attempt j ?rest = None"
  proof (intro allI impI)
    fix j assume j: "length w1 < j \<and> j \<le> length (w1 @ [NEWLINE] @ w2)"
    have "?rest ! j \<noteq> NEWLINE"
    proof (cases "j = length (w1 @ [NEWLINE] @ w2)")
      case True
      have "((w1 @ [NEWLINE] @ w2) @ LBRACE # (w @ [RBRACE] @ w3 @ fence_close @ post))
               ! length (w1 @ [NEWLINE] @ w2) = LBRACE"
        by (rule nth_append_length)
      with True show ?thesis using obj(1) by simp
    next
      case False
      define i where "i = j - Suc (length w1)"
      have i: "j = Suc (length w1) + i" "i < length w2"
        using j False unfolding i_def by (simp, simp, linarith)
      have "((w1 @ [NEWLINE]) @ w2 @ obj @ w3 @ fence_close @ post) ! (length (w1 @ [NEWLINE]) + i)
              = (w2 @ obj @ w3 @ fence_close @ post) ! i"
        by (rule nth_append_length_plus)
      then have "?rest ! j = w2 ! i" using i by (simp add: nth_append)
      with w2 i(2) show ?thesis by (simp add: list_all_length)
    qed
    then show "fence_attempt j ?rest = None" by (simp add: fence_attempt_def)
  qed
  show ?thesis
    unfolding fence_body_def run using at no by (rule fence_backtrack_hit) simp
qed

lemma match_fence_hit:
  assumes "\<not> str_includes pre (js ''```'')"
    and "fence_body rest = Some body"
  shows "match_fence json_fence_open (pre @ json_fence_open @ rest) = Some body"
  using assms(1)
proof (induction pre)
  case Nil
  have "drop (length json_fence_open) (json_fence_open @ rest) = rest" by simp
  moreover obtain c cs where "json_fence_open @ rest = c # cs" "prefix json_fence_open (c # cs)"
    by (cases "json_fence_open @ rest") (auto simp: json_fence_open_def js_def)
  ultimately show ?case using assms(2) by (metis append_Nil match_fence.simps(2) option.simps(5))
next
  case (Cons c pre)
  have np: "\<not> prefix json_fence_open (c # pre @ json_fence_open @ rest)"
  proof
    assume p: "prefix json_fence_open (c # pre @ json_fence_open @ rest)"
    show False
    proof (cases pre)
      case Nil
      with p show False by (simp add: json_fence_open_def js_def)
    next
      case (Cons d pre1)
      note c1 = this
      show False
      proof (cases pre1)
        case Nil
        with p c1 show False by (simp add: json_fence_open_def js_def)
      next
        case (Cons e pre2)
        with p c1 have "prefix (js ''```'') (c # pre)" by (simp add: json_fence_open_def js_def)
        then have "indexOf (c # pre) (js ''```'') = Some 0" by simp
        with Cons.prems show False by (simp add: str_includes_def)
      qed
    qed
  qed
  have "\<not> str_includes pre (js ''```'')"
    using not_includes_part[of "[c]" pre "[]"] Cons.prems by simp
  with Cons.IH np show ?case by simp
qed

text \<open>
  Claim C5. Let a well-formed JSON object \<open>obj\<close> stand in a block fenced by \<open>```json\<close> and
  \<open>```\<close>: the opening marker, whitespace \<open>w1\<close>, a line feed, whitespace \<open>w2\<close> on the line
  of the object, the object, whitespace \<open>w3\<close>, a line feed and the closing marker. Let
  \<open>pre\<close> be the prose before the block, with no fence marker of its own, and \<open>post\<close> any
  text after it; both may contain braces. Then \<open>extractAndParseJSON\<close> returns \<open>obj\<close>, the
  interior of the fence without its surrounding whitespace.
\<close>

theorem extract_fenced_json:
  assumes np: "\<not> str_includes pre (js ''```'')"
    and wf: "json_object_text obj"
    and w1: "list_all is_space w1"
    and w2: "list_all (\<lambda>c. is_space c \<and> c \<noteq> NEWLINE) w2"
    and w3: "list_all is_space w3"
  shows "extractAndParseJSON
           (pre @ js ''```json'' @ w1 @ [NEWLINE] @ w2 @ obj @ w3 @ [NEWLINE] @ js ''```'' @ post)
         = Inr obj"
proof -
  from json_object_text_shape[OF wf] obtain w where w: "obj = LBRACE # w @ [RBRACE]" "ok w"
    by blast
  define pre' where "pre' = dropWhile is_space pre"
  define post' where "post' = rev (dropWhile is_space (rev post))"
  let ?mid = "json_fence_open @ w1 @ [NEWLINE] @ w2 @ obj @ w3 @ fence_close"
  have fc: "[NEWLINE] @ js ''```'' = fence_close" by (simp add: fence_close_def js_def)
  have c: "pre @ js ''```json'' @ w1 @ [NEWLINE] @ w2 @ obj @ w3 @ [NEWLINE] @ js ''```'' @ post
            = pre @ ?mid @ post"
    using fc by (simp add: json_fence_open_def)
  have "?mid \<noteq> []" "\<not> is_space (hd ?mid)" "\<not> is_space (last ?mid)"
    by (simp_all add: json_fence_open_def js_def fence_close_def is_space_def)
  then have t: "trim (pre @ ?mid @ post) = pre' @ ?mid @ post'"
    unfolding pre'_def post'_def by (rule trim_core)
  obtain p1 where p1: "pre = p1 @ pre'"
    unfolding pre'_def by (metis takeWhile_dropWhile_id)
  have np': "\<not> str_includes pre' (js ''```'')"
    using not_includes_part[of p1 pre' "[]"] np p1 by simp
  have fb: "fence_body (w1 @ [NEWLINE] @ w2 @ obj @ w3 @ fence_close @ post') = Some (w2 @ obj @ w3)"
    using w1 w2 w3 w by (rule fence_body_hit)
  have m: "match_fence json_fence_open (pre' @ ?mid @ post') = Some (w2 @ obj @ w3)"
    using match_fence_hit[OF np' fb] by simp
  have ne: "obj \<noteq> []" and hd: "\<not> is_space (hd obj)" and la: "\<not> is_space (last obj)"
    using w(1) by (simp_all add: not_space_braces)
  have w2s: "list_all is_space w2" using w2 by (simp add: list_all_iff)
  have d2: "dropWhile is_space w2 = []" using w2s by (simp add: list_all_iff)
  have d3: "dropWhile is_space (rev w3) = []" using w3 by (simp add: list_all_iff)
  have tb: "trim (w2 @ obj @ w3) = obj"
    unfolding trim_core[OF ne hd la, of w2 w3] d2 d3 by simp
  have tr: "trim obj = obj" using ne hd la by (rule trim_id)
  have sw: "startsWith obj LBRACE" using w(1) by (simp add: startsWith_def)
  have ew: "endsWith obj RBRACE" using w(1) by (simp add: endsWith_def)
  show ?thesis
    unfolding c extractAndParseJSON_def t Let_def m
    using tb tr sw ew ne by simp
qed

theorem extract_fenced_json_witness:
  "\<not> str_includes (js ''Here is {your} course:\<newline>'') (js ''```'') \<and>
   json_object_text (js ''{\"title\":\"X\",\"lessons\":[]}'') \<and>
   list_all is_space [] \<and> list_all (\<lambda>c. is_space c \<and> c \<noteq> NEWLINE) [] \<and>
   extractAndParseJSON
     (js ''Here is {your} course:\<newline>'' @ js ''```json'' @ [] @ [NEWLINE] @ [] @
      js ''{\"title\":\"X\",\"lessons\":[]}'' @ [] @ [NEWLINE] @ js ''```'' @ js ''\<newline>Enjoy!'')
     = Inr (js ''{\"title\":\"X\",\"lessons\":[]}'')"
proof -
  have h1: "\<not> str_includes (js ''Here is {your} course:\<newline>'') (js ''```'')"
    by code_simp
  have h2: "json_object_text (js ''{\"title\":\"X\",\"lessons\":[]}'')"
    by code_simp
  have h3: "list_all is_space []" by simp
  have h4: "list_all (\<lambda>c. is_space c \<and> c \<noteq> NEWLINE) []" by simp
  show ?thesis
    using h1 h2 h3 h4 extract_fenced_json [OF h1 h2 h3 h4 h3, of "js ''\<newline>Enjoy!''"]
    by (intro conjI)
qed

subsection \<open>Course creation\<close>

text \<open>
  Claim C6 (the code departs from it). A reply cut off inside the object is extracted
  from its first \<open>{\<close> on, and \<open>JSON.parse\<close> rejects the candidate; the handler of that
  failure then reads the unbound identifier \<open>message\<close>, so that what reaches the caller
  is a ReferenceError and not the parse failure.
\<close>

theorem truncated_reply_raises_ReferenceError:
  "extractAndParseJSON ex_truncated = Inr ex_truncated \<and>
   JSON_parse ex_truncated = None \<and>
   generateCourseContent_from_reply (js ''Unexpected end of JSON input'') ex_truncated
     = Inl (ReferenceError (js ''message is not defined''))"
  by code_simp

lemma map_of_insert_index:
  "k \<notin> set (map fst kvs) \<Longrightarrow>
     map_of (insert_index i k v kvs) k' = (if k' = k then Some v else map_of kvs k')"
proof (induction kvs)
  case Nil
  show ?case by simp
next
  case (Cons a kvs)
  obtain ka va where a: "a = (ka, va)" by (cases a)
  from Cons.prems a have ne: "ka \<noteq> k" and nin: "k \<notin> set (map fst kvs)" by auto
  show ?case
  proof (cases "array_index ka")
    case None
    with a ne show ?thesis by simp
  next
    case (Some j)
    show ?thesis
    proof (cases "j < i")
      case True
      have "map_of (insert_index i k v (a # kvs)) k' = map_of ((ka, va) # insert_index i k v kvs) k'"
        using True Some a by simp
      also have "\<dots> = (if k' = ka then Some va else map_of (insert_index i k v kvs) k')" by simp
      also have "\<dots> = (if k' = ka then Some va else (if k' = k then Some v else map_of kvs k'))"
        using Cons.IH[OF nin] by simp
      also have "\<dots> = (if k' = k then Some v else map_of (a # kvs) k')"
        using ne a by auto
      finally show ?thesis .
    next
      case False
      with Some a ne show ?thesis by simp
    qed
  qed
qed

lemma map_of_replace:
  "map_of (map (\<lambda>(k', v'). if k' = k then (k', v) else (k', v')) kvs) k'
     = (if k' = k \<and> k \<in> set (map fst kvs) then Some v else map_of kvs k')"
proof (induction kvs)
  case Nil
  show ?case by simp
next
  case (Cons a kvs)
  obtain ka va where a: "a = (ka, va)" by (cases a)
  show ?case
  proof (cases "ka = k")
    case True
    with a Cons.IH show ?thesis by (cases "k' = k") simp_all
  next
    case False
    with a Cons.IH show ?thesis by (cases "k' = ka") simp_all
  qed
qed

lemma map_of_obj_put:
  "map_of (obj_put kvs k v) k' = (if k' = k then Some v else map_of kvs k')"
proof (cases "k \<in> set (map fst kvs)")
  case True
  then show ?thesis by (simp add: obj_put_def map_of_replace)
next
  case False
  then have "map_of kvs k = None" by (simp add: map_of_eq_None_iff)
  with False show ?thesis
    by (auto simp: obj_put_def map_of_insert_index map_add_def split: option.splits)
qed

text \<open>
  Claim C3 as stated fails: the reply of the scenario is stored with \<open>correctAnswer\<close> 5.
\<close>

theorem stored_correctAnswer_not_clamped:
  "stored_at (create_course_from_reply [] 1733443200123 ex_date None [] ex_reply)
             (Key (js ''lessons'') # ex_answer_path) = Some (JNum 5) \<and>
   stored_at (create_course_from_reply [] 1733443200123 ex_date None [] ex_reply)
             (Key (js ''lessons'') # ex_answer_path) \<noteq> Some (JNum 1)"
  by code_simp

text \<open>
  Claim C3, amended. The creation pipeline has no normalization step: a parsed document
  that is an object is stored as parsed, with only the properties \<open>id\<close> and \<open>createdAt\<close>
  set. Whatever the document holds below any other property, so every
  \<open>correctAnswer\<close>, in range or not, is stored unchanged.
\<close>

theorem store_course_keeps_document:
  assumes "k \<noteq> js ''id''" and "k \<noteq> js ''createdAt''"
  shows "stored_at (store_course now date None table (JObj kvs)) (Key k # p)
           = json_at (JObj kvs) (Key k # p)"
  using assms
  by (simp add: stored_at_def store_course_def set_property_def Let_def map_of_obj_put)

theorem store_course_keeps_document_witness:
  "js ''lessons'' \<noteq> js ''id'' \<and> js ''lessons'' \<noteq> js ''createdAt'' \<and>
   JSON_parse ex_reply = Some (JObj [(js ''title'', JStr (js ''T'')),
       (js ''lessons'', JArr [JObj [(js ''id'', JStr (js ''l1'')),
          (js ''questions'', JArr [JObj [(js ''id'', JStr (js ''q1'')),
             (js ''options'', JArr [JStr (js ''a''), JStr (js ''b'')]),
             (js ''correctAnswer'', JNum 5), (js ''explanation'', JStr (js ''e'')),
             (js ''question'', JStr (js ''Q''))]])]])]) \<and>
   stored_at (store_course 1733443200123 ex_date None []
       (JObj [(js ''title'', JStr (js ''T'')),
       (js ''lessons'', JArr [JObj [(js ''id'', JStr (js ''l1'')),
          (js ''questions'', JArr [JObj [(js ''id'', JStr (js ''q1'')),
             (js ''options'', JArr [JStr (js ''a''), JStr (js ''b'')]),
             (js ''correctAnswer'', JNum 5), (js ''explanation'', JStr (js ''e'')),
             (js ''question'', JStr (js ''Q''))]])]])]))
     (Key (js ''lessons'') # ex_answer_path) = Some (JNum 5)"
proof -
  have h1: "js ''lessons'' \<noteq> js ''id''" by code_simp
  have h2: "js ''lessons'' \<noteq> js ''createdAt''" by code_simp
  have h3: "JSON_parse ex_reply = Some (JObj [(js ''title'', JStr (js ''T'')),
       (js ''lessons'', JArr [JObj [(js ''id'', JStr (js ''l1'')),
          (js ''questions'', JArr [JObj [(js ''id'', JStr (js ''q1'')),
             (js ''options'', JArr [JStr (js ''a''), JStr (js ''b'')]),
             (js ''correctAnswer'', JNum 5), (js ''explanation'', JStr (js ''e'')),
             (js ''question'', JStr (js ''Q''))]])]])])"
    by code_simp
  have h4: "json_at (JObj [(js ''title'', JStr (js ''T'')),
       (js ''lessons'', JArr [JObj [(js ''id'', JStr (js ''l1'')),
          (js ''questions'', JArr [JObj [(js ''id'', JStr (js ''q1'')),
             (js ''options'', JArr [JStr (js ''a''), JStr (js ''b'')]),
             (js ''correctAnswer'', JNum 5), (js ''explanation'', JStr (js ''e'')),
             (js ''question'', JStr (js ''Q''))]])]])])
        (Key (js ''lessons'') # ex_answer_path) = Some (JNum 5)"
    by code_simp
  show ?thesis
    using h1 h2 h3 h4 store_course_keeps_document [OF h1 h2, of 1733443200123 ex_date "[]" _ ex_answer_path]
    by simp
qed

subsection \<open>Listing the courses\<close>

lemma mset_insert_desc: "mset (insert_desc r xs) = add_mset r (mset xs)"
  by (induction xs) auto

lemma mset_order_desc: "mset (order_desc rows) = mset rows"
  by (induction rows) (auto simp: order_desc_def mset_insert_desc)

lemma set_insert_desc: "set (insert_desc r xs) = insert r (set xs)"
  by (induction xs) auto

lemma sorted_insert_desc:
  "sorted_wrt (\<lambda>a b. created_at b \<le> created_at a) xs \<Longrightarrow>
     sorted_wrt (\<lambda>a b. created_at b \<le> created_at a) (insert_desc r xs)"
  by (induction xs) (auto simp: set_insert_desc)

lemma sorted_order_desc: "sorted_wrt (\<lambda>a b. created_at b \<le> created_at a) (order_desc rows)"
  by (induction rows) (auto simp: order_desc_def sorted_insert_desc)

lemma lessonCount_array:
  fixes r :: course_row
  assumes "js_get (course_data r) (js ''lessons'') = Some (JArr xs)"
  shows "lessonCount (summary r) = Some (JNum (of_nat (length xs)))"
proof -
  have nn: "course_data r \<noteq> JNull" using assms by (auto simp: js_get_def)
  have "js_get_opt (Some (course_data r)) (js ''lessons'') = Some (JArr xs)"
    using assms nn by (cases "course_data r") (simp_all add: js_get_opt_def)
  then show ?thesis
    by (simp add: summary_def js_get_opt_def js_get_def js_or_def truthy_def)
qed

lemma lessonCount_absent:
  fixes r :: course_row
  assumes "js_get (course_data r) (js ''lessons'') = None"
  shows "lessonCount (summary r) = Some (JNum 0)"
proof -
  have "js_get_opt (Some (course_data r)) (js ''lessons'') = None"
    using assms by (cases "course_data r") (simp_all add: js_get_opt_def)
  then show ?thesis
    by (simp add: summary_def js_get_opt_def js_or_def truthy_def)
qed

text \<open>
  Claim C10 as stated fails: a stored course created before the cutoff has no entry.
\<close>

theorem list_courses_omits_old_course:
  "list_courses None [hd ex_table] = Inr []"
  by code_simp

text \<open>
  Claim C10, amended. The list operation returns one summary entry per stored course
  created at or after the cutoff 2024-12-06T00:00:00.000Z, and none for an older one.
  The entries are ordered by creation time, latest first. The \<open>lessonCount\<close> of a
  course whose stored document has an array \<open>lessons\<close> is the length of that array, and
  it is 0 when the stored document has no \<open>lessons\<close>.
\<close>

theorem list_courses_since_cutoff:
  "list_courses None table = Inr (map summary (select_courses table)) \<and>
   mset (select_courses table) = filter_mset (\<lambda>r. cutoffDate \<le> created_at r) (mset table) \<and>
   sorted_wrt (\<lambda>a b. s_createdAt b \<le> s_createdAt a) (map summary (select_courses table)) \<and>
   (\<forall>r \<in> set table. \<forall>xs. js_get (course_data r) (js ''lessons'') = Some (JArr xs) \<longrightarrow>
       lessonCount (summary r) = Some (JNum (of_nat (length xs)))) \<and>
   (\<forall>r \<in> set table. js_get (course_data r) (js ''lessons'') = None \<longrightarrow>
       lessonCount (summary r) = Some (JNum 0))"
proof (intro conjI ballI allI impI)
  show "list_courses None table = Inr (map summary (select_courses table))"
    by (simp add: list_courses_def)
  show "mset (select_courses table) = filter_mset (\<lambda>r. cutoffDate \<le> created_at r) (mset table)"
    by (simp add: select_courses_def mset_order_desc)
  have "sorted_wrt (\<lambda>a b. created_at b \<le> created_at a) (select_courses table)"
    unfolding select_courses_def by (rule sorted_order_desc)
  then show "sorted_wrt (\<lambda>a b. s_createdAt b \<le> s_createdAt a) (map summary (select_courses table))"
    by (simp add: sorted_wrt_map summary_def)
next
  fix r :: course_row and xs
  assume "js_get (course_data r) (js ''lessons'') = Some (JArr xs)"
  then show "lessonCount (summary r) = Some (JNum (of_nat (length xs)))"
    by (rule lessonCount_array)
next
  fix r :: course_row
  assume "js_get (course_data r) (js ''lessons'') = None"
  then show "lessonCount (summary r) = Some (JNum 0)"
    by (rule lessonCount_absent)
qed

theorem list_courses_since_cutoff_witness:
  "ex_table ! 1 \<in> set ex_table \<and>
   js_get (course_data (ex_table ! 1)) (js ''lessons'') = Some (JArr [JNull]) \<and>
   lessonCount (summary (ex_table ! 1)) = Some (JNum 1) \<and>
   ex_table ! 2 \<in> set ex_table \<and>
   js_get (course_data (ex_table ! 2)) (js ''lessons'') = None \<and>
   lessonCount (summary (ex_table ! 2)) = Some (JNum 0) \<and>
   list_courses None ex_table = Inr (map summary [ex_table ! 2, ex_table ! 1])"
proof -
  have h1: "ex_table ! 1 \<in> set ex_table" by code_simp
  have h2: "js_get (course_data (ex_table ! 1)) (js ''lessons'') = Some (JArr [JNull])"
    by code_simp
  have h3: "select_courses ex_table = [ex_table ! 2, ex_table ! 1]" by code_simp
  have h4: "ex_table ! 2 \<in> set ex_table" by code_simp
  have h5: "js_get (course_data (ex_table ! 2)) (js ''lessons'') = None" by code_simp
  from list_courses_since_cutoff [of ex_table] h1 h2 h4 h5
  have "lessonCount (summary (ex_table ! 1)) = Some (JNum (of_nat (length [JNull])))"
    and "lessonCount (summary (ex_table ! 2)) = Some (JNum 0)"
    and "list_courses None ex_table = Inr (map summary (select_courses ex_table))"
    by blast+
  with h1 h2 h3 h4 h5 show ?thesis by simp
qed

subsection \<open>The static exporter\<close>

lemma str_includes_iff: "str_includes s p \<longleftrightarrow> (\<exists>a b. s = a @ p @ b)"
proof (cases "p = []")
  case True
  have "s = [] @ [] @ s" by simp
  with True show ?thesis unfolding str_includes_def indexOf_None_iff by blast
next
  case False
  then show ?thesis unfolding str_includes_def indexOf_None_iff by blast
qed

lemma str_includesI: "s = a @ p @ b \<Longrightarrow> str_includes s p"
  unfolding str_includes_iff by blast

lemma str_includes_trans:
  assumes "str_includes s m" and "str_includes m p"
  shows "str_includes s p"
proof -
  from assms obtain a b c d where "s = a @ m @ b" and "m = c @ p @ d"
    unfolding str_includes_iff by blast
  then have "s = (a @ c) @ p @ (d @ b)" by simp
  then show ?thesis by (rule str_includesI)
qed

lemma number_text_ambient [simp]:
  "number_text (rt\<lparr>clock := t, random := g\<rparr>) x = number_text rt x"
  by (simp add: number_text_def split: prod.splits)

lemma to_text_ambient [simp]:
  "to_text (rt\<lparr>clock := t, random := g\<rparr>) v = to_text rt v"
proof (induction rt v rule: to_text.induct)
  case (5 rt xs)
  have m: "map (\<lambda>v. if v = JNull then [] else to_text (rt\<lparr>clock := t, random := g\<rparr>) v) xs
          = map (\<lambda>v. if v = JNull then [] else to_text rt v) xs"
    by (rule map_cong [OF refl]) (simp add: "5.IH")
  show ?case unfolding to_text.simps m by (rule refl)
qed simp_all

lemma stringify_ambient [simp]:
  "stringify (rt\<lparr>clock := t, random := g\<rparr>) ind v = stringify rt ind v"
proof (induction rt ind v rule: stringify.induct)
  case (5 rt ind xs)
  show ?case
  proof (cases "xs = []")
    case True
    then show ?thesis by simp
  next
    case False
    have m: "map (\<lambda>v. stringify (rt\<lparr>clock := t, random := g\<rparr>) (ind @ js ''  '') v) xs
            = map (\<lambda>v. stringify rt (ind @ js ''  '') v) xs"
      by (rule map_cong [OF refl]) (simp add: "5.IH" [OF False])
    show ?thesis unfolding stringify.simps m by (rule refl)
  qed
next
  case (6 rt ind kvs)
  show ?case
  proof (cases "kvs = []")
    case True
    then show ?thesis by simp
  next
    case False
    have m: "map (\<lambda>kv. quote_json (fst kv) @ js '': '' @
                 stringify (rt\<lparr>clock := t, random := g\<rparr>) (ind @ js ''  '') (snd kv)) kvs
            = map (\<lambda>kv. quote_json (fst kv) @ js '': '' @ stringify rt (ind @ js ''  '') (snd kv)) kvs"
      by (rule map_cong [OF refl]) (simp add: "6.IH" [OF False])
    show ?thesis unfolding stringify.simps m by (rule refl)
  qed
qed simp_all

lemma interpolate_ambient [simp]:
  "interpolate (rt\<lparr>clock := t, random := g\<rparr>) v = interpolate rt v"
  by (simp add: interpolate_def del: to_text.simps split: option.splits)

lemma gt_zero_ambient [simp]:
  "gt_zero (rt\<lparr>clock := t, random := g\<rparr>) v = gt_zero rt v"
  by (simp add: gt_zero_def del: to_text.simps split: option.splits json.splits)

lemma escapeHtml_ambient [simp]:
  "escapeHtml (rt\<lparr>clock := t, random := g\<rparr>) v = escapeHtml rt v"
  by (simp add: escapeHtml_def del: to_text.simps split: option.splits json.splits)

lemma nonempty_guard_ambient [simp]:
  "nonempty_guard (rt\<lparr>clock := t, random := g\<rparr>) v = nonempty_guard rt v"
  by (simp add: nonempty_guard_def)

lemma option_html_ambient [simp]:
  "option_html (rt\<lparr>clock := t, random := g\<rparr>) = option_html rt"
  by (simp add: option_html_def fun_eq_iff Let_def del: to_text.simps split: sum.splits prod.splits)

lemma question_html_ambient [simp]:
  "question_html (rt\<lparr>clock := t, random := g\<rparr>) = question_html rt"
  by (simp add: question_html_def fun_eq_iff Let_def del: to_text.simps split: sum.splits prod.splits)

lemma questions_section_ambient [simp]:
  "questions_section (rt\<lparr>clock := t, random := g\<rparr>) = questions_section rt"
  by (simp add: questions_section_def fun_eq_iff Let_def del: to_text.simps split: sum.splits prod.splits)

lemma testCase_html_ambient [simp]:
  "testCase_html (rt\<lparr>clock := t, random := g\<rparr>) = testCase_html rt"
  by (simp add: testCase_html_def fun_eq_iff Let_def del: to_text.simps split: sum.splits prod.splits)

lemma testCases_block_ambient [simp]:
  "testCases_block (rt\<lparr>clock := t, random := g\<rparr>) = testCases_block rt"
  by (simp add: testCases_block_def fun_eq_iff Let_def del: to_text.simps split: sum.splits prod.splits)

lemma exercise_html_ambient [simp]:
  "exercise_html (rt\<lparr>clock := t, random := g\<rparr>) = exercise_html rt"
  by (simp add: exercise_html_def fun_eq_iff Let_def del: to_text.simps split: sum.splits prod.splits)

lemma coding_section_ambient [simp]:
  "coding_section (rt\<lparr>clock := t, random := g\<rparr>) = coding_section rt"
  by (simp add: coding_section_def fun_eq_iff Let_def del: to_text.simps split: sum.splits prod.splits)

lemma lesson_html_ambient [simp]:
  "lesson_html (rt\<lparr>clock := t, random := g\<rparr>) = lesson_html rt"
  by (simp add: lesson_html_def fun_eq_iff Let_def del: to_text.simps split: sum.splits prod.splits)

lemma generateLessonsHTML_ambient [simp]:
  "generateLessonsHTML (rt\<lparr>clock := t, random := g\<rparr>) = generateLessonsHTML rt"
  by (simp add: generateLessonsHTML_def fun_eq_iff Let_def del: to_text.simps split: sum.splits prod.splits)

lemma generateStandaloneApp_ambient:
  "generateStandaloneApp (rt\<lparr>clock := t, random := g\<rparr>) course = generateStandaloneApp rt course"
  by (simp add: generateStandaloneApp_def JSON_stringify2_def del: to_text.simps stringify.simps
        split: sum.splits)

text \<open>
  Claim C4. The page rendered for a Course value does not depend on the time or on
  random numbers: whatever \<open>Date.now()\<close> and \<open>Math.random()\<close> would return during two
  calls, \<open>generateStandaloneApp\<close> returns the same text for the same Course (or throws
  the same error).
\<close>

theorem render_deterministic:
  "generateStandaloneApp (rt\<lparr>clock := t1, random := g1\<rparr>) course
     = generateStandaloneApp (rt\<lparr>clock := t2, random := g2\<rparr>) course"
  by (simp add: generateStandaloneApp_ambient)



lemma style_in_title_end: "str_includes page_title_end (js ''<style>'')"
  by code_simp

lemma script_in_before_data: "str_includes page_before_data (js ''<script>'')"
  by code_simp

lemma ex_course_renders:
  "generateStandaloneApp ex_runtime ex_course =
     Inr ex_html"
proof -
  have l: "generateLessonsHTML ex_runtime (js_or (js_get ex_course (js ''lessons'')) (Some (JArr [])))
            = Inr (js_lines [[],
                    ''        <div class=\"lesson-card\" data-lesson-id=\"l1\">'',
                    ''          <h2>Untitled Lesson</h2>'',
                    ''          <div class=\"lesson-content\" id=\"content-l1\"></div>'',
                    ''        </div>''])"
    by code_simp
  have t: "interpolate ex_runtime (js_or (js_get ex_course (js ''title'')) (Some (JStr (js ''Course'')))) = js ''T''"
    by code_simp
  have e: "escapeHtml ex_runtime (js_or (js_get ex_course (js ''title'')) (Some (JStr (js ''Course'')))) = js ''T''"
    by code_simp
  have d: "escapeHtml ex_runtime (js_or (js_get ex_course (js ''description'')) (Some (JStr []))) = []"
    by code_simp
  have n: "ex_course \<noteq> JNull" by (simp add: ex_course_def)
  show ?thesis
    unfolding generateStandaloneApp_def l t e d ex_html_def using n by simp
qed







text \<open>
  Claim C2 (the code departs from it). The lesson content of the scenario reaches the
  exported page unescaped, inside the data literal of the inline script, which
  \<open>JSON.stringify\<close> writes without escaping \<open><\<close>, \<open>>\<close> or \<open>/\<close>; and a course title is
  interpolated unescaped into the \<open>title\<close> element, so that a title can close that element
  and open a script.
\<close>

theorem script_text_exported_unescaped:
  "page_includes (generateStandaloneApp ex_runtime ex_course) (js ''<script>alert(1)</script>'') \<and>
   page_includes (generateStandaloneApp ex_runtime ex_course_title)
     (js ''<title></title><script>alert(1)</script></title>'')"
proof
  have s: "str_includes (JSON_stringify2 ex_runtime ex_course) (js ''<script>alert(1)</script>'')"
    by code_simp
  have "str_includes ex_html
          (JSON_stringify2 ex_runtime ex_course)"
    unfolding ex_html_def by (rule str_includesI [where b = page_script]) simp
  then show "page_includes (generateStandaloneApp ex_runtime ex_course) (js ''<script>alert(1)</script>'')"
    unfolding page_includes_def ex_course_renders
    using s by (simp add: str_includes_trans)
next
  have l: "generateLessonsHTML ex_runtime (js_or (js_get ex_course_title (js ''lessons'')) (Some (JArr []))) = Inr []"
    by code_simp
  have t: "interpolate ex_runtime (js_or (js_get ex_course_title (js ''title'')) (Some (JStr (js ''Course''))))
             = js ''</title><script>alert(1)</script>''"
    by code_simp
  have n: "ex_course_title \<noteq> JNull" by (simp add: ex_course_title_def)
  have ph: "\<exists>x. page_head = x @ js ''<title>''"
    by (rule exI [where x = "js_lines [''<!DOCTYPE html>'', ''<html lang=\"en\">'', ''<head>'',
            ''    <meta charset=\"UTF-8\">'',
            ''    <meta name=\"viewport\" content=\"width=device-width, initial-scale=1.0\">'',
            ''    '']"]) code_simp
  have pt: "\<exists>y. page_title_end = js ''</title>'' @ y"
    by (rule exI [where x = "js_lines [[], ''    <script src=\"https://cdn.jsdelivr.net/npm/marked@11.1.1/marked.min.js\"></script>'', ''    <style>'', []]"]) code_simp
  from ph obtain x where x: "page_head = x @ js ''<title>''" by blast
  from pt obtain y where y: "page_title_end = js ''</title>'' @ y" by blast
  have j: "js ''<title></title><script>alert(1)</script></title>''
            = js ''<title>'' @ js ''</title><script>alert(1)</script>'' @ js ''</title>''"
    by (simp add: js_def)
  obtain rest where r: "generateStandaloneApp ex_runtime ex_course_title
      = Inr (page_head @ js ''</title><script>alert(1)</script>'' @ page_title_end @ rest)"
    unfolding generateStandaloneApp_def l t using n by simp
  have "str_includes (page_head @ js ''</title><script>alert(1)</script>'' @ page_title_end @ rest)
          (js ''<title></title><script>alert(1)</script></title>'')"
    unfolding x y j by (rule str_includesI [where a = x and b = "y @ rest"]) simp
  then show "page_includes (generateStandaloneApp ex_runtime ex_course_title)
     (js ''<title></title><script>alert(1)</script></title>'')"
    unfolding page_includes_def r by simp
qed

subsection \<open>The export endpoint\<close>

lemma zip_not_index: "d @ js ''/index.html'' \<noteq> d @ js ''.zip''"
  by (simp add: js_def)

lemma export_download_shape:
  assumes "export_course rt dirname NoFault table fs courseId = (Download name entries, fs')"
  shows "\<exists>row html title.
           filter (\<lambda>r. row_id r = courseId) table = [row] \<and>
           generateStandaloneApp rt (course_data row) = Inr html \<and>
           js_get (course_data row) (js ''title'') = Some (JStr title) \<and>
           name = hyphenate title @ js ''.zip'' \<and>
           entries = directory_entries (dirname @ js ''/exports/'' @ courseId)
                       (write_file (dirname @ js ''/exports/'' @ courseId @ js ''/index.html'') (Text html)
                          (mkdir (dirname @ js ''/exports/'' @ courseId) fs)) \<and>
           fs' = unlink (dirname @ js ''/exports/'' @ courseId @ js ''.zip'')
                   (write_file (dirname @ js ''/exports/'' @ courseId @ js ''.zip'') (Zip entries)
                      (write_file (dirname @ js ''/exports/'' @ courseId @ js ''/index.html'') (Text html)
                         (mkdir (dirname @ js ''/exports/'' @ courseId) fs)))"
  using assms
  by (auto simp: export_course_def Let_def
           split: list.splits sum.splits option.splits json.splits if_splits)

lemma ex_export:
  "export_course ex_runtime ex_dirname NoFault ex_store ex_fs (js ''course-7'')
     = (Download (js ''T.zip'') [(js ''index.html'', ex_html)], ex_fs_after)"
proof -
  have f: "filter (\<lambda>r. row_id r = js ''course-7'') ex_store = ex_store"
    by (simp add: ex_store_def)
  have t: "js_get ex_course (js ''title'') = Some (JStr (js ''T''))"
    by code_simp
  have h: "hyphenate (js ''T'') @ js ''.zip'' = js ''T.zip''"
    by code_simp
  have p: "prefix (js ''/app/server/exports/course-7/'') (js ''/app/server/exports/course-7/index.html'')"
    by code_simp
  have d: "drop 29 (js ''/app/server/exports/course-7/index.html'') = js ''index.html''"
    by code_simp
  have l: "length (js ''/app/server/exports/course-7'') = 28" by code_simp
  have a1: "js ''/app/server'' @ js ''/exports/'' @ js ''course-7'' = js ''/app/server/exports/course-7''"
    by (simp add: js_def)
  have a2: "js ''/app/server/exports/course-7'' @ js ''/index.html'' = js ''/app/server/exports/course-7/index.html''"
    by (simp add: js_def)
  have a3: "js ''/app/server/exports/course-7'' @ js ''/'' = js ''/app/server/exports/course-7/''"
    by (simp add: js_def)
  have n1: "js ''/app/server/exports/course-7'' \<noteq> js ''/app/server/exports''" by code_simp
  have n2: "js ''/app/server'' @ js ''/exports/'' @ js ''course-7'' @ js ''.zip'' \<noteq> js ''/app/server/exports/course-7/index.html''"
    by code_simp
  show ?thesis
    unfolding export_course_def f
    by (simp add: ex_store_def ex_course_renders ex_dirname_def ex_fs_def ex_fs_after_def t h
          mkdir_def write_file_def unlink_def directory_entries_def Let_def a1 a2 a3 p d l n1 n2
          n2 [symmetric])
qed

text \<open>
  Claim C8 as stated fails: after the course of the scenario has been exported
  successfully, the export directory and the page in it are still there.
\<close>

theorem export_leaves_directory:
  "is_download (fst (export_course ex_runtime ex_dirname NoFault ex_store ex_fs (js ''course-7''))) \<and>
   js ''/app/server/exports/course-7''
     \<in> set (dirs (snd (export_course ex_runtime ex_dirname NoFault ex_store ex_fs (js ''course-7'')))) \<and>
   js ''/app/server/exports/course-7/index.html''
     \<in> fst ` set (files (snd (export_course ex_runtime ex_dirname NoFault ex_store ex_fs (js ''course-7''))))"
  by (simp add: ex_export is_download_def ex_fs_after_def)

text \<open>
  Claim C8, amended. When an export request succeeds (the archive is downloaded without
  error and can be unlinked), the generated archive is removed after the response is
  sent, while the export directory and the page written into it are left in place.
\<close>

theorem export_success_removes_archive_only:
  assumes "export_course rt dirname NoFault table fs courseId = (Download name entries, fs')"
  shows "dirname @ js ''/exports/'' @ courseId @ js ''.zip'' \<notin> fst ` set (files fs') \<and>
         dirname @ js ''/exports/'' @ courseId \<in> set (dirs fs') \<and>
         dirname @ js ''/exports/'' @ courseId @ js ''/index.html'' \<in> fst ` set (files fs')"
proof -
  from export_download_shape [OF assms] obtain html where
    fs': "fs' = unlink (dirname @ js ''/exports/'' @ courseId @ js ''.zip'')
                   (write_file (dirname @ js ''/exports/'' @ courseId @ js ''.zip'') (Zip entries)
                      (write_file (dirname @ js ''/exports/'' @ courseId @ js ''/index.html'') (Text html)
                         (mkdir (dirname @ js ''/exports/'' @ courseId) fs)))"
    by blast
  have ne: "dirname @ js ''/exports/'' @ courseId @ js ''/index.html''
              \<noteq> dirname @ js ''/exports/'' @ courseId @ js ''.zip''"
    by (simp add: js_def)
  show ?thesis
    unfolding fs' using ne
    by (auto simp: unlink_def write_file_def mkdir_def image_iff)
qed

theorem export_success_removes_archive_only_witness:
  "export_course ex_runtime ex_dirname NoFault ex_store ex_fs (js ''course-7'')
     = (Download (js ''T.zip'') [(js ''index.html'', ex_html)], ex_fs_after) \<and>
   ex_dirname @ js ''/exports/'' @ js ''course-7'' @ js ''.zip'' \<notin> fst ` set (files ex_fs_after) \<and>
   ex_dirname @ js ''/exports/'' @ js ''course-7'' \<in> set (dirs ex_fs_after) \<and>
   ex_dirname @ js ''/exports/'' @ js ''course-7'' @ js ''/index.html'' \<in> fst ` set (files ex_fs_after)"
  using ex_export export_success_removes_archive_only [OF ex_export]
  by blast

end
